theory Spec2Isabelle
  imports Main
begin

section \<open>Values of a request and of a table column\<close>

text \<open>
  A request body is a JSON object. Its fields are modelled for the JSON scalars: a field
  that is absent reads as \<open>JUndefined\<close>, and \<open>JNum n\<close> is a JSON number whose value
  is the integer \<open>n\<close> (a safe integer of JavaScript). Only what the handlers do with a
  field is defined: the test \<open>!x\<close>, the comparison \<open>===\<close> (equality of the
  scalar), its use as the parameter of a statement, and \<open>new Date(x)\<close>.
\<close>

datatype jsval = JUndefined | JNull | JBool bool | JNum int | JStr string

type_synonym body = "string \<Rightarrow> jsval"

text \<open>The object literal with the given fields; every other field is absent.\<close>

definition obj :: "(string \<times> jsval) list \<Rightarrow> body" where
  "obj kvs k = (case map_of kvs k of None \<Rightarrow> JUndefined | Some v \<Rightarrow> v)"

text \<open>\<open>truthy x\<close> is the negation of JavaScript's \<open>!x\<close>.\<close>

fun truthy :: "jsval \<Rightarrow> bool" where
  "truthy JUndefined = False"
| "truthy JNull = False"
| "truthy (JBool b) = b"
| "truthy (JNum n) = (n \<noteq> 0)"
| "truthy (JStr s) = (s \<noteq> [])"

text \<open>
  A column holds text or NULL. A column of type VARCHAR holds the text it was written
  with; a column of another type (INTEGER, DECIMAL, DATE, TIMESTAMP) holds the text the
  database prints for the value it has read (see the store below). The handlers only ever
  compare columns of type VARCHAR.
\<close>

type_synonym col = "string option"

fun dec_digits :: "nat \<Rightarrow> string" where
  "dec_digits n =
     (if n < 10 then [''0123456789'' ! n]
      else dec_digits (n div 10) @ [''0123456789'' ! (n mod 10)])"

declare dec_digits.simps [simp del]

definition num_text :: "int \<Rightarrow> string" where
  "num_text n = (if n < 0 then CHR ''-'' # dec_digits (nat (- n)) else dec_digits (nat n))"

text \<open>
  \<open>prepareValue\<close> is what the driver sends for a statement parameter: NULL for
  \<open>null\<close> and \<open>undefined\<close>, otherwise the value's \<open>toString()\<close>.
\<close>

fun prepareValue :: "jsval \<Rightarrow> col" where
  "prepareValue JUndefined = None"
| "prepareValue JNull = None"
| "prepareValue (JBool b) = Some (if b then ''true'' else ''false'')"
| "prepareValue (JNum n) = Some (num_text n)"
| "prepareValue (JStr s) = Some s"

text \<open>A column read back from a result row: a string, or \<open>null\<close>.\<close>

fun col_js :: "col \<Rightarrow> jsval" where
  "col_js None = JNull"
| "col_js (Some s) = JStr s"

text \<open>
  The SQL comparisons \<open>column = $n\<close> and \<open>column != $n\<close> in a WHERE clause: a row
  is selected only when the comparison is true, and a comparison with NULL never is.
\<close>

definition sql_eq :: "col \<Rightarrow> col \<Rightarrow> bool" where
  "sql_eq c p = (case (c, p) of (Some x, Some y) \<Rightarrow> x = y | _ \<Rightarrow> False)"

definition sql_ne :: "col \<Rightarrow> col \<Rightarrow> bool" where
  "sql_ne c p = (case (c, p) of (Some x, Some y) \<Rightarrow> x \<noteq> y | _ \<Rightarrow> False)"

subsection \<open>Dates\<close>

text \<open>
  \<open>new_Date\<close> is the time value of \<open>new Date(x)\<close> in milliseconds, \<open>None\<close> for
  an invalid date (time value NaN). For a string it is \<open>Date.parse\<close>, which the
  handlers take from the runtime (the first argument here); every other value is
  converted to a number and clipped to the range of time values.
\<close>

definition TimeClip :: "int \<Rightarrow> int option" where
  "TimeClip t = (if \<bar>t\<bar> \<le> 8640000000000000 then Some t else None)"

fun new_Date :: "(string \<Rightarrow> int option) \<Rightarrow> jsval \<Rightarrow> int option" where
  "new_Date parse (JStr s) = parse s"
| "new_Date parse (JNum n) = TimeClip n"
| "new_Date parse (JBool b) = Some (if b then 1 else 0)"
| "new_Date parse JNull = Some 0"
| "new_Date parse JUndefined = None"

text \<open>
  \<open>date_ge d1 d2\<close> is \<open>d1 >= d2\<close> on two Date objects: the comparison of their time
  values, false as soon as one of them is NaN.
\<close>

definition date_ge :: "int option \<Rightarrow> int option \<Rightarrow> bool" where
  "date_ge d1 d2 = (case (d1, d2) of (Some x, Some y) \<Rightarrow> y \<le> x | _ \<Rightarrow> False)"

section \<open>The tables\<close>

record airline_row =
  al_id :: col
  al_name :: col
  al_iata_code :: col
  al_country :: col
  al_founded_year :: col

record airport_row =
  ap_id :: col
  ap_name :: col
  ap_iata_code :: col
  ap_city :: col
  ap_country :: col
  ap_latitude :: col
  ap_longitude :: col

record aircraft_row =
  ac_id :: col
  ac_registration_number :: col
  ac_model :: col
  ac_manufacturer :: col
  ac_capacity :: col
  ac_year_manufactured :: col
  ac_airline_id :: col

record flight_row =
  fl_id :: col
  fl_flight_number :: col
  fl_departure_airport_id :: col
  fl_arrival_airport_id :: col
  fl_departure_time :: col
  fl_arrival_time :: col
  fl_aircraft_id :: col
  fl_airline_id :: col
  fl_status :: col

record passenger_row =
  pa_id :: col
  pa_first_name :: col
  pa_last_name :: col
  pa_email :: col
  pa_phone :: col
  pa_passport_number :: col
  pa_nationality :: col
  pa_date_of_birth :: col

record booking_row =
  bk_id :: col
  bk_flight_id :: col
  bk_passenger_id :: col
  bk_booking_date :: col
  bk_seat_number :: col
  bk_booking_status :: col
  bk_price :: col

record crew_member_row =
  cm_id :: col
  cm_first_name :: col
  cm_last_name :: col
  cm_position :: col
  cm_airline_id :: col
  cm_license_number :: col
  cm_experience_years :: col

record flight_crew_row =
  fc_flight_id :: col
  fc_crew_member_id :: col
  fc_role :: col

datatype table =
  Airline | Airport | Aircraft | Flight | Passenger | Booking | CrewMember | FlightCrew

datatype stmt = INSERT table | UPDATE table | DELETE table

text \<open>
  The persisted state: the eight tables, each a list of rows, and \<open>journal\<close>, the
  INSERT, UPDATE and DELETE statements the database has executed, the latest last. The
  journal records that a statement ran, also when it matched no row; a statement that the
  database refused is not in it.
\<close>

record db =
  airline_tbl :: "airline_row list"
  airport_tbl :: "airport_row list"
  aircraft_tbl :: "aircraft_row list"
  flight_tbl :: "flight_row list"
  passenger_tbl :: "passenger_row list"
  booking_tbl :: "booking_row list"
  crew_member_tbl :: "crew_member_row list"
  flight_crew_tbl :: "flight_crew_row list"
  journal :: "stmt list"

section \<open>Responses\<close>

datatype payload =
  NoData
| Counts "(string \<times> nat) list"
| AirlineData airline_row
| AirportData airport_row
| AircraftData aircraft_row
| FlightData flight_row
| PassengerData passenger_row
| BookingData booking_row
| CrewMemberData crew_member_row
| FlightCrewData flight_crew_row

record response =
  res_status :: nat
  res_message :: string
  res_data :: payload

definition reply :: "nat \<Rightarrow> string \<Rightarrow> response" where
  "reply c m = \<lparr>res_status = c, res_message = m, res_data = NoData\<rparr>"

definition reply_data :: "nat \<Rightarrow> string \<Rightarrow> payload \<Rightarrow> response" where
  "reply_data c m d = \<lparr>res_status = c, res_message = m, res_data = d\<rparr>"

text \<open>
  The answer of every \<open>catch\<close> block, \<open>res.status(500).json({ error: error.message })\<close>:
  the body has no \<open>message\<close>, and the text of its \<open>error\<close> is the database's.
\<close>

definition server_error :: response where
  "server_error = \<lparr>res_status = 500, res_message = [], res_data = NoData\<rparr>"

text \<open>\<open>rows[0]\<close> of a RETURNING clause as the \<open>data\<close> of a response.\<close>

definition first_row :: "('r \<Rightarrow> payload) \<Rightarrow> 'r list \<Rightarrow> payload" where
  "first_row k rows = (case rows of [] \<Rightarrow> NoData | r # _ \<Rightarrow> k r)"

text \<open>
  What a handler obtains from its surroundings during one request: the runtime's
  \<open>Date.parse\<close>; the identifier \<open>uuidv4()\<close> returns; the instant of \<open>new Date()\<close>, as
  the text a TIMESTAMP column prints for it; and the input functions of the database for
  the types INTEGER, DECIMAL, DATE and TIMESTAMP, each giving for the text of a parameter
  the text the database prints for the value read, or \<open>None\<close> when the database raises
  \<open>invalid input syntax\<close> (or a value out of range).
\<close>

record env =
  date_parse :: "string \<Rightarrow> int option"
  uuidv4 :: string
  now :: string
  integer_in :: "string \<Rightarrow> string option"
  decimal_in :: "string \<Rightarrow> string option"
  date_in :: "string \<Rightarrow> string option"
  timestamp_in :: "string \<Rightarrow> string option"

section \<open>The store\<close>

text \<open>
  The database is the one the README sets up (its CREATE TABLE statements). For the
  statements that write, the model takes from it the types of the columns and the
  NOT NULL, PRIMARY KEY and REFERENCES constraints. A statement that the database refuses
  raises in \<open>pool.query\<close>: nothing is written and the handler answers from its
  \<open>catch\<close> block.

  A DELETE is refused only when a row of another table still refers to a deleted row.
  Every handler that deletes has counted those rows and found none, or has deleted them,
  before it deletes; so the DELETE statements are modelled as always executed.
\<close>

definition flight_by_id :: "col \<Rightarrow> db \<Rightarrow> flight_row list" where
  "flight_by_id p s = filter (\<lambda>r. sql_eq (fl_id r) p) (flight_tbl s)"

definition airport_by_id :: "col \<Rightarrow> db \<Rightarrow> airport_row list" where
  "airport_by_id p s = filter (\<lambda>r. sql_eq (ap_id r) p) (airport_tbl s)"

definition aircraft_by_id :: "col \<Rightarrow> db \<Rightarrow> aircraft_row list" where
  "aircraft_by_id p s = filter (\<lambda>r. sql_eq (ac_id r) p) (aircraft_tbl s)"

definition airline_by_id :: "col \<Rightarrow> db \<Rightarrow> airline_row list" where
  "airline_by_id p s = filter (\<lambda>r. sql_eq (al_id r) p) (airline_tbl s)"

definition passenger_by_id :: "col \<Rightarrow> db \<Rightarrow> passenger_row list" where
  "passenger_by_id p s = filter (\<lambda>r. sql_eq (pa_id r) p) (passenger_tbl s)"

definition booking_by_id :: "col \<Rightarrow> db \<Rightarrow> booking_row list" where
  "booking_by_id p s = filter (\<lambda>r. sql_eq (bk_id r) p) (booking_tbl s)"

definition crew_member_by_id :: "col \<Rightarrow> db \<Rightarrow> crew_member_row list" where
  "crew_member_by_id p s = filter (\<lambda>r. sql_eq (cm_id r) p) (crew_member_tbl s)"

definition assignment_rows :: "col \<Rightarrow> col \<Rightarrow> db \<Rightarrow> flight_crew_row list" where
  "assignment_rows f c s =
     filter (\<lambda>r. sql_eq (fc_flight_id r) f \<and> sql_eq (fc_crew_member_id r) c) (flight_crew_tbl s)"

text \<open>
  \<open>typed conv p\<close>: the parameter \<open>p\<close> read for a typed column: NULL stays NULL, text is
  read by the input function; \<open>None\<close> when the input function raises.
\<close>

definition typed :: "(string \<Rightarrow> string option) \<Rightarrow> col \<Rightarrow> col option" where
  "typed conv p =
     (case p of
        None \<Rightarrow> Some None
      | Some t \<Rightarrow> (case conv t of None \<Rightarrow> None | Some v \<Rightarrow> Some (Some v)))"

text \<open>\<open>refers c rows\<close>: a REFERENCES constraint holds for the column value \<open>c\<close>, where
  \<open>rows\<close> are the rows of the referenced table with that key: NULL refers to nothing.\<close>

definition refers :: "col \<Rightarrow> 'r list \<Rightarrow> bool" where
  "refers c rows = (c = None \<or> rows \<noteq> [])"

text \<open>
  \<open>INSERT ... RETURNING *\<close>: \<open>vals\<close> is the row read from the parameters (\<open>None\<close>
  when an input function raised) and \<open>ok\<close> its constraints; the result is the row
  inserted and the new table, or \<open>None\<close> when the database refuses.
\<close>

definition insert_into :: "'r option \<Rightarrow> ('r \<Rightarrow> bool) \<Rightarrow> 'r list \<Rightarrow> ('r \<times> 'r list) option" where
  "insert_into vals ok rows =
     (case vals of
        None \<Rightarrow> None
      | Some row \<Rightarrow> if ok row then Some (row, rows @ [row]) else None)"

text \<open>\<open>UPDATE ... WHERE p\<close> with the new row given by \<open>f\<close>, and its RETURNING rows.\<close>

definition update_where :: "('r \<Rightarrow> bool) \<Rightarrow> ('r \<Rightarrow> 'r) \<Rightarrow> 'r list \<Rightarrow> 'r list" where
  "update_where p f rows = map (\<lambda>r. if p r then f r else r) rows"

definition returning :: "('r \<Rightarrow> bool) \<Rightarrow> ('r \<Rightarrow> 'r) \<Rightarrow> 'r list \<Rightarrow> 'r list" where
  "returning p f rows = map f (filter p rows)"

text \<open>
  \<open>UPDATE ... SET ... WHERE hit RETURNING *\<close>: the parameters are read first, also when
  no row is hit; the constraints \<open>ok\<close> of the new values are checked when a row is
  written. The result is the RETURNING rows and the new table, or \<open>None\<close> when the
  database refuses.
\<close>

definition update_set ::
  "'r option \<Rightarrow> ('r \<Rightarrow> bool) \<Rightarrow> ('r \<Rightarrow> bool) \<Rightarrow> ('r \<Rightarrow> 'r \<Rightarrow> 'r) \<Rightarrow> 'r list
     \<Rightarrow> ('r list \<times> 'r list) option" where
  "update_set vals ok hit set_row rows =
     (case vals of
        None \<Rightarrow> None
      | Some v \<Rightarrow>
          if filter hit rows \<noteq> [] \<and> \<not> ok v then None
          else Some (returning hit (set_row v) rows, update_where hit (set_row v) rows))"

text \<open>\<open>DELETE ... WHERE p\<close>.\<close>

definition delete_where :: "('r \<Rightarrow> bool) \<Rightarrow> 'r list \<Rightarrow> 'r list" where
  "delete_where p rows = filter (\<lambda>r. \<not> p r) rows"

subsection \<open>The tables of the README, one by one\<close>

text \<open>
  For each table: \<open>_values\<close> reads the typed columns of the parameters of a statement,
  \<open>_constraints\<close> are the NOT NULL and REFERENCES constraints of a row, and
  \<open>_key_free\<close> is the PRIMARY KEY constraint for a new row.
\<close>

text \<open>\<open>airline\<close>: \<open>name\<close> NOT NULL, \<open>founded_year\<close> INTEGER.\<close>

definition airline_values :: "env \<Rightarrow> airline_row \<Rightarrow> airline_row option" where
  "airline_values e v =
     (case typed (integer_in e) (al_founded_year v) of
        None \<Rightarrow> None
      | Some y \<Rightarrow> Some (v\<lparr>al_founded_year := y\<rparr>))"

definition airline_constraints :: "airline_row \<Rightarrow> db \<Rightarrow> bool" where
  "airline_constraints v s = (al_name v \<noteq> None)"

definition airline_key_free :: "airline_row \<Rightarrow> db \<Rightarrow> bool" where
  "airline_key_free v s = (al_id v \<noteq> None \<and> airline_by_id (al_id v) s = [])"

text \<open>\<open>airport\<close>: \<open>name\<close> NOT NULL, \<open>latitude\<close> and \<open>longitude\<close> DECIMAL.\<close>

definition airport_values :: "env \<Rightarrow> airport_row \<Rightarrow> airport_row option" where
  "airport_values e v =
     (case (typed (decimal_in e) (ap_latitude v), typed (decimal_in e) (ap_longitude v)) of
        (Some la, Some lo) \<Rightarrow> Some (v\<lparr>ap_latitude := la, ap_longitude := lo\<rparr>)
      | _ \<Rightarrow> None)"

definition airport_constraints :: "airport_row \<Rightarrow> db \<Rightarrow> bool" where
  "airport_constraints v s = (ap_name v \<noteq> None)"

definition airport_key_free :: "airport_row \<Rightarrow> db \<Rightarrow> bool" where
  "airport_key_free v s = (ap_id v \<noteq> None \<and> airport_by_id (ap_id v) s = [])"

text \<open>\<open>aircraft\<close>: \<open>registration_number\<close> and \<open>model\<close> NOT NULL, \<open>capacity\<close> and
  \<open>year_manufactured\<close> INTEGER, \<open>airline_id\<close> REFERENCES \<open>airline(id)\<close>.\<close>

definition aircraft_values :: "env \<Rightarrow> aircraft_row \<Rightarrow> aircraft_row option" where
  "aircraft_values e v =
     (case (typed (integer_in e) (ac_capacity v), typed (integer_in e) (ac_year_manufactured v)) of
        (Some c, Some y) \<Rightarrow> Some (v\<lparr>ac_capacity := c, ac_year_manufactured := y\<rparr>)
      | _ \<Rightarrow> None)"

definition aircraft_constraints :: "aircraft_row \<Rightarrow> db \<Rightarrow> bool" where
  "aircraft_constraints v s =
     (ac_registration_number v \<noteq> None \<and> ac_model v \<noteq> None
      \<and> refers (ac_airline_id v) (airline_by_id (ac_airline_id v) s))"

definition aircraft_key_free :: "aircraft_row \<Rightarrow> db \<Rightarrow> bool" where
  "aircraft_key_free v s = (ac_id v \<noteq> None \<and> aircraft_by_id (ac_id v) s = [])"

text \<open>\<open>flight\<close>: \<open>flight_number\<close> NOT NULL, \<open>departure_time\<close> and \<open>arrival_time\<close>
  TIMESTAMP NOT NULL, \<open>departure_airport_id\<close> and \<open>arrival_airport_id\<close> REFERENCES
  \<open>airport(id)\<close>, \<open>aircraft_id\<close> REFERENCES \<open>aircraft(id)\<close>, \<open>airline_id\<close> REFERENCES
  \<open>airline(id)\<close>.\<close>

definition flight_values :: "env \<Rightarrow> flight_row \<Rightarrow> flight_row option" where
  "flight_values e v =
     (case (typed (timestamp_in e) (fl_departure_time v),
            typed (timestamp_in e) (fl_arrival_time v)) of
        (Some d, Some a) \<Rightarrow> Some (v\<lparr>fl_departure_time := d, fl_arrival_time := a\<rparr>)
      | _ \<Rightarrow> None)"

definition flight_constraints :: "flight_row \<Rightarrow> db \<Rightarrow> bool" where
  "flight_constraints v s =
     (fl_flight_number v \<noteq> None \<and> fl_departure_time v \<noteq> None \<and> fl_arrival_time v \<noteq> None
      \<and> refers (fl_departure_airport_id v) (airport_by_id (fl_departure_airport_id v) s)
      \<and> refers (fl_arrival_airport_id v) (airport_by_id (fl_arrival_airport_id v) s)
      \<and> refers (fl_aircraft_id v) (aircraft_by_id (fl_aircraft_id v) s)
      \<and> refers (fl_airline_id v) (airline_by_id (fl_airline_id v) s))"

definition flight_key_free :: "flight_row \<Rightarrow> db \<Rightarrow> bool" where
  "flight_key_free v s = (fl_id v \<noteq> None \<and> flight_by_id (fl_id v) s = [])"

text \<open>\<open>passenger\<close>: \<open>first_name\<close> and \<open>last_name\<close> NOT NULL, \<open>date_of_birth\<close> DATE.\<close>

definition passenger_values :: "env \<Rightarrow> passenger_row \<Rightarrow> passenger_row option" where
  "passenger_values e v =
     (case typed (date_in e) (pa_date_of_birth v) of
        None \<Rightarrow> None
      | Some d \<Rightarrow> Some (v\<lparr>pa_date_of_birth := d\<rparr>))"

definition passenger_constraints :: "passenger_row \<Rightarrow> db \<Rightarrow> bool" where
  "passenger_constraints v s = (pa_first_name v \<noteq> None \<and> pa_last_name v \<noteq> None)"

definition passenger_key_free :: "passenger_row \<Rightarrow> db \<Rightarrow> bool" where
  "passenger_key_free v s = (pa_id v \<noteq> None \<and> passenger_by_id (pa_id v) s = [])"

text \<open>\<open>booking\<close>: \<open>flight_id\<close> REFERENCES \<open>flight(id)\<close>, \<open>passenger_id\<close> REFERENCES
  \<open>passenger(id)\<close>, \<open>booking_date\<close> TIMESTAMP (only ever written with \<open>new Date()\<close>),
  \<open>price\<close> DECIMAL.\<close>

definition booking_values :: "env \<Rightarrow> booking_row \<Rightarrow> booking_row option" where
  "booking_values e v =
     (case typed (decimal_in e) (bk_price v) of
        None \<Rightarrow> None
      | Some p \<Rightarrow> Some (v\<lparr>bk_price := p\<rparr>))"

definition booking_constraints :: "booking_row \<Rightarrow> db \<Rightarrow> bool" where
  "booking_constraints v s =
     (refers (bk_flight_id v) (flight_by_id (bk_flight_id v) s)
      \<and> refers (bk_passenger_id v) (passenger_by_id (bk_passenger_id v) s))"

definition booking_key_free :: "booking_row \<Rightarrow> db \<Rightarrow> bool" where
  "booking_key_free v s = (bk_id v \<noteq> None \<and> booking_by_id (bk_id v) s = [])"

text \<open>\<open>crew_member\<close>: \<open>first_name\<close>, \<open>last_name\<close> and \<open>position\<close> NOT NULL,
  \<open>airline_id\<close> REFERENCES \<open>airline(id)\<close>, \<open>experience_years\<close> INTEGER.\<close>

definition crew_member_values :: "env \<Rightarrow> crew_member_row \<Rightarrow> crew_member_row option" where
  "crew_member_values e v =
     (case typed (integer_in e) (cm_experience_years v) of
        None \<Rightarrow> None
      | Some y \<Rightarrow> Some (v\<lparr>cm_experience_years := y\<rparr>))"

definition crew_member_constraints :: "crew_member_row \<Rightarrow> db \<Rightarrow> bool" where
  "crew_member_constraints v s =
     (cm_first_name v \<noteq> None \<and> cm_last_name v \<noteq> None \<and> cm_position v \<noteq> None
      \<and> refers (cm_airline_id v) (airline_by_id (cm_airline_id v) s))"

definition crew_member_key_free :: "crew_member_row \<Rightarrow> db \<Rightarrow> bool" where
  "crew_member_key_free v s = (cm_id v \<noteq> None \<and> crew_member_by_id (cm_id v) s = [])"

text \<open>\<open>flight_crew\<close>: \<open>flight_id\<close> REFERENCES \<open>flight(id)\<close>, \<open>crew_member_id\<close>
  REFERENCES \<open>crew_member(id)\<close>, PRIMARY KEY \<open>(flight_id, crew_member_id)\<close>; no typed
  column.\<close>

definition flight_crew_constraints :: "flight_crew_row \<Rightarrow> db \<Rightarrow> bool" where
  "flight_crew_constraints v s =
     (refers (fc_flight_id v) (flight_by_id (fc_flight_id v) s)
      \<and> refers (fc_crew_member_id v) (crew_member_by_id (fc_crew_member_id v) s))"

definition flight_crew_key_free :: "flight_crew_row \<Rightarrow> db \<Rightarrow> bool" where
  "flight_crew_key_free v s =
     (fc_flight_id v \<noteq> None \<and> fc_crew_member_id v \<noteq> None
      \<and> assignment_rows (fc_flight_id v) (fc_crew_member_id v) s = [])"

section \<open>routes/flights.js\<close>

text \<open>The checks that \<open>router.post('/')\<close> and \<open>router.put('/:id')\<close> have in common
  (lines 99 to 141 and 177 to 219): the rejection, or \<open>None\<close> when the candidate passes.\<close>

definition flight_checks :: "env \<Rightarrow> body \<Rightarrow> db \<Rightarrow> response option" where
  "flight_checks e b s =
    (let flight_number = b ''flight_number'';
         departure_airport_id = b ''departure_airport_id'';
         arrival_airport_id = b ''arrival_airport_id'';
         departure_time = b ''departure_time'';
         arrival_time = b ''arrival_time'';
         aircraft_id = b ''aircraft_id'';
         airline_id = b ''airline_id''
     in
     if \<not> truthy flight_number \<or> \<not> truthy departure_airport_id
        \<or> \<not> truthy arrival_airport_id \<or> \<not> truthy departure_time
        \<or> \<not> truthy arrival_time \<or> \<not> truthy aircraft_id \<or> \<not> truthy airline_id
     then Some (reply 400 ''All flight details are required'')
     else if departure_airport_id = arrival_airport_id
     then Some (reply 400 ''Departure and arrival airports must be different'')
     else
       let departureDate = new_Date (date_parse e) departure_time;
           arrivalDate = new_Date (date_parse e) arrival_time
       in
       if date_ge departureDate arrivalDate
       then Some (reply 400 ''Departure time must be before arrival time'')
       else
         let departureAirport = airport_by_id (prepareValue departure_airport_id) s;
             arrivalAirport = airport_by_id (prepareValue arrival_airport_id) s;
             aircraft = aircraft_by_id (prepareValue aircraft_id) s;
             airline = airline_by_id (prepareValue airline_id) s
         in
         if departureAirport = [] then Some (reply 400 ''Departure airport does not exist'')
         else if arrivalAirport = [] then Some (reply 400 ''Arrival airport does not exist'')
         else if aircraft = [] then Some (reply 400 ''Aircraft does not exist'')
         else if airline = [] then Some (reply 400 ''Airline does not exist'')
         else if col_js (ac_airline_id (hd aircraft)) \<noteq> airline_id
         then Some (reply 400 ''Aircraft does not belong to the specified airline'')
         else None)"

text \<open>\<open>status || 'Scheduled'\<close>\<close>

definition or_default :: "jsval \<Rightarrow> string \<Rightarrow> jsval" where
  "or_default v d = (if truthy v then v else JStr d)"

text \<open>The parameters \<open>$2\<close> to \<open>$8\<close> of the INSERT and \<open>$1\<close> to \<open>$7\<close> of the UPDATE, with
  the \<open>id\<close> and the \<open>status\<close> each statement sends.\<close>

definition flight_params :: "col \<Rightarrow> body \<Rightarrow> jsval \<Rightarrow> flight_row" where
  "flight_params i b status =
     \<lparr>fl_id = i,
      fl_flight_number = prepareValue (b ''flight_number''),
      fl_departure_airport_id = prepareValue (b ''departure_airport_id''),
      fl_arrival_airport_id = prepareValue (b ''arrival_airport_id''),
      fl_departure_time = prepareValue (b ''departure_time''),
      fl_arrival_time = prepareValue (b ''arrival_time''),
      fl_aircraft_id = prepareValue (b ''aircraft_id''),
      fl_airline_id = prepareValue (b ''airline_id''),
      fl_status = prepareValue status\<rparr>"

definition flights_post :: "env \<Rightarrow> body \<Rightarrow> db \<Rightarrow> response \<times> db" where
  "flights_post e b s =
    (case flight_checks e b s of
       Some r \<Rightarrow> (r, s)
     | None \<Rightarrow>
        (case insert_into
                (flight_values e
                   (flight_params (Some (uuidv4 e)) b (or_default (b ''status'') ''Scheduled'')))
                (\<lambda>row. flight_key_free row s \<and> flight_constraints row s) (flight_tbl s) of
           None \<Rightarrow> (server_error, s)
         | Some (newFlight, rows) \<Rightarrow>
             (reply_data 201 ''Flight created successfully'' (FlightData newFlight),
              s\<lparr>flight_tbl := rows, journal := journal s @ [INSERT Flight]\<rparr>)))"

definition flight_set :: "flight_row \<Rightarrow> flight_row \<Rightarrow> flight_row" where
  "flight_set v r =
     r\<lparr>fl_flight_number := fl_flight_number v,
       fl_departure_airport_id := fl_departure_airport_id v,
       fl_arrival_airport_id := fl_arrival_airport_id v,
       fl_departure_time := fl_departure_time v,
       fl_arrival_time := fl_arrival_time v,
       fl_aircraft_id := fl_aircraft_id v,
       fl_airline_id := fl_airline_id v,
       fl_status := fl_status v\<rparr>"

definition flights_put :: "env \<Rightarrow> string \<Rightarrow> body \<Rightarrow> db \<Rightarrow> response \<times> db" where
  "flights_put e rid b s =
    (if flight_by_id (Some rid) s = [] then (reply 404 ''Flight not found'', s)
     else
       case flight_checks e b s of
         Some r \<Rightarrow> (r, s)
       | None \<Rightarrow>
          (case update_set (flight_values e (flight_params (Some rid) b (b ''status'')))
                  (\<lambda>v. flight_constraints v s) (\<lambda>r. sql_eq (fl_id r) (Some rid)) flight_set
                  (flight_tbl s) of
             None \<Rightarrow> (server_error, s)
           | Some (updatedFlight, rows) \<Rightarrow>
               (reply_data 200 ''Flight updated successfully''
                  (first_row FlightData updatedFlight),
                s\<lparr>flight_tbl := rows, journal := journal s @ [UPDATE Flight]\<rparr>)))"

definition flights_delete :: "string \<Rightarrow> db \<Rightarrow> response \<times> db" where
  "flights_delete rid s =
    (if flight_by_id (Some rid) s = [] then (reply 404 ''Flight not found'', s)
     else
       let relatedBookings = length (filter (\<lambda>r. sql_eq (bk_flight_id r) (Some rid)) (booking_tbl s))
       in
       if relatedBookings > 0
       then (reply_data 400 ''Cannot delete flight with related bookings''
               (Counts [(''bookings'', relatedBookings)]), s)
       else
         let relatedCrewAssignments =
               length (filter (\<lambda>r. sql_eq (fc_flight_id r) (Some rid)) (flight_crew_tbl s));
             s1 = (if relatedCrewAssignments > 0
                   then s\<lparr>flight_crew_tbl :=
                            delete_where (\<lambda>r. sql_eq (fc_flight_id r) (Some rid)) (flight_crew_tbl s),
                          journal := journal s @ [DELETE FlightCrew]\<rparr>
                   else s);
             s2 = s1\<lparr>flight_tbl := delete_where (\<lambda>r. sql_eq (fl_id r) (Some rid)) (flight_tbl s1),
                     journal := journal s1 @ [DELETE Flight]\<rparr>
         in (reply 200 ''Flight deleted successfully'', s2))"

section \<open>routes/bookings.js\<close>

text \<open>The checks shared by create and update (lines 70 to 98 and 127 to 155); \<open>other\<close> is
  the extra clause of the seat query of the update, \<open>id != $3\<close>, which the create
  does not have.\<close>

definition booking_checks :: "body \<Rightarrow> (booking_row \<Rightarrow> bool) \<Rightarrow> db \<Rightarrow> response option" where
  "booking_checks b other s =
    (let flight_id = b ''flight_id'';
         passenger_id = b ''passenger_id'';
         seat_number = b ''seat_number''
     in
     if \<not> truthy flight_id \<or> \<not> truthy passenger_id
     then Some (reply 400 ''Flight ID and passenger ID are required'')
     else if flight_by_id (prepareValue flight_id) s = []
     then Some (reply 400 ''Flight does not exist'')
     else if passenger_by_id (prepareValue passenger_id) s = []
     then Some (reply 400 ''Passenger does not exist'')
     else if truthy seat_number
             \<and> filter (\<lambda>r. sql_eq (bk_flight_id r) (prepareValue flight_id)
                             \<and> sql_eq (bk_seat_number r) (prepareValue seat_number)
                             \<and> other r) (booking_tbl s) \<noteq> []
     then Some (reply 400 ''This seat is already booked'')
     else None)"

definition booking_params :: "col \<Rightarrow> col \<Rightarrow> body \<Rightarrow> jsval \<Rightarrow> booking_row" where
  "booking_params i d b booking_status =
     \<lparr>bk_id = i,
      bk_flight_id = prepareValue (b ''flight_id''),
      bk_passenger_id = prepareValue (b ''passenger_id''),
      bk_booking_date = d,
      bk_seat_number = prepareValue (b ''seat_number''),
      bk_booking_status = prepareValue booking_status,
      bk_price = prepareValue (b ''price'')\<rparr>"

definition bookings_post :: "env \<Rightarrow> body \<Rightarrow> db \<Rightarrow> response \<times> db" where
  "bookings_post e b s =
    (case booking_checks b (\<lambda>r. True) s of
       Some r \<Rightarrow> (r, s)
     | None \<Rightarrow>
        (case insert_into
                (booking_values e
                   (booking_params (Some (uuidv4 e)) (Some (now e)) b
                      (or_default (b ''booking_status'') ''Confirmed'')))
                (\<lambda>row. booking_key_free row s \<and> booking_constraints row s) (booking_tbl s) of
           None \<Rightarrow> (server_error, s)
         | Some (newBooking, rows) \<Rightarrow>
             (reply_data 201 ''Booking created successfully'' (BookingData newBooking),
              s\<lparr>booking_tbl := rows, journal := journal s @ [INSERT Booking]\<rparr>)))"

text \<open>The UPDATE does not set \<open>booking_date\<close>.\<close>

definition booking_set :: "booking_row \<Rightarrow> booking_row \<Rightarrow> booking_row" where
  "booking_set v r =
     r\<lparr>bk_flight_id := bk_flight_id v,
       bk_passenger_id := bk_passenger_id v,
       bk_seat_number := bk_seat_number v,
       bk_booking_status := bk_booking_status v,
       bk_price := bk_price v\<rparr>"

definition bookings_put :: "env \<Rightarrow> string \<Rightarrow> body \<Rightarrow> db \<Rightarrow> response \<times> db" where
  "bookings_put e rid b s =
    (if booking_by_id (Some rid) s = [] then (reply 404 ''Booking not found'', s)
     else
       case booking_checks b (\<lambda>r. sql_ne (bk_id r) (Some rid)) s of
         Some r \<Rightarrow> (r, s)
       | None \<Rightarrow>
          (case update_set
                  (booking_values e (booking_params (Some rid) None b (b ''booking_status'')))
                  (\<lambda>v. booking_constraints v s) (\<lambda>r. sql_eq (bk_id r) (Some rid)) booking_set
                  (booking_tbl s) of
             None \<Rightarrow> (server_error, s)
           | Some (updatedBooking, rows) \<Rightarrow>
               (reply_data 200 ''Booking updated successfully''
                  (first_row BookingData updatedBooking),
                s\<lparr>booking_tbl := rows, journal := journal s @ [UPDATE Booking]\<rparr>)))"

definition bookings_delete :: "string \<Rightarrow> db \<Rightarrow> response \<times> db" where
  "bookings_delete rid s =
    (if booking_by_id (Some rid) s = [] then (reply 404 ''Booking not found'', s)
     else (reply 200 ''Booking deleted successfully'',
           s\<lparr>booking_tbl := delete_where (\<lambda>r. sql_eq (bk_id r) (Some rid)) (booking_tbl s),
             journal := journal s @ [DELETE Booking]\<rparr>))"

section \<open>routes/passengers.js\<close>

definition passenger_params :: "col \<Rightarrow> body \<Rightarrow> passenger_row" where
  "passenger_params i b =
     \<lparr>pa_id = i,
      pa_first_name = prepareValue (b ''first_name''),
      pa_last_name = prepareValue (b ''last_name''),
      pa_email = prepareValue (b ''email''),
      pa_phone = prepareValue (b ''phone''),
      pa_passport_number = prepareValue (b ''passport_number''),
      pa_nationality = prepareValue (b ''nationality''),
      pa_date_of_birth = prepareValue (b ''date_of_birth'')\<rparr>"

definition passengers_post :: "env \<Rightarrow> body \<Rightarrow> db \<Rightarrow> response \<times> db" where
  "passengers_post e b s =
    (let first_name = b ''first_name''; last_name = b ''last_name''; email = b ''email'' in
     if \<not> truthy first_name \<or> \<not> truthy last_name \<or> \<not> truthy email
     then (reply 400 ''First name, last name, and email are required'', s)
     else
       let existingPassenger = filter (\<lambda>r. sql_eq (pa_email r) (prepareValue email)) (passenger_tbl s)
       in
       if existingPassenger \<noteq> []
       then (reply 400 ''A passenger with this email already exists'', s)
       else
         (case insert_into (passenger_values e (passenger_params (Some (uuidv4 e)) b))
                 (\<lambda>row. passenger_key_free row s \<and> passenger_constraints row s)
                 (passenger_tbl s) of
            None \<Rightarrow> (server_error, s)
          | Some (newPassenger, rows) \<Rightarrow>
              (reply_data 201 ''Passenger created successfully'' (PassengerData newPassenger),
               s\<lparr>passenger_tbl := rows, journal := journal s @ [INSERT Passenger]\<rparr>)))"

definition passenger_set :: "passenger_row \<Rightarrow> passenger_row \<Rightarrow> passenger_row" where
  "passenger_set v r =
     r\<lparr>pa_first_name := pa_first_name v,
       pa_last_name := pa_last_name v,
       pa_email := pa_email v,
       pa_phone := pa_phone v,
       pa_passport_number := pa_passport_number v,
       pa_nationality := pa_nationality v,
       pa_date_of_birth := pa_date_of_birth v\<rparr>"

definition passengers_put :: "env \<Rightarrow> string \<Rightarrow> body \<Rightarrow> db \<Rightarrow> response \<times> db" where
  "passengers_put e rid b s =
    (let first_name = b ''first_name''; last_name = b ''last_name''; email = b ''email'' in
     if \<not> truthy first_name \<or> \<not> truthy last_name \<or> \<not> truthy email
     then (reply 400 ''First name, last name, and email are required'', s)
     else if passenger_by_id (Some rid) s = []
     then (reply 404 ''Passenger not found'', s)
     else
       let existingPassenger =
             filter (\<lambda>r. sql_eq (pa_email r) (prepareValue email) \<and> sql_ne (pa_id r) (Some rid))
               (passenger_tbl s)
       in
       if existingPassenger \<noteq> []
       then (reply 400 ''Another passenger with this email already exists'', s)
       else
         (case update_set (passenger_values e (passenger_params (Some rid) b))
                 (\<lambda>v. passenger_constraints v s) (\<lambda>r. sql_eq (pa_id r) (Some rid))
                 passenger_set (passenger_tbl s) of
            None \<Rightarrow> (server_error, s)
          | Some (updatedPassenger, rows) \<Rightarrow>
              (reply_data 200 ''Passenger updated successfully''
                 (first_row PassengerData updatedPassenger),
               s\<lparr>passenger_tbl := rows, journal := journal s @ [UPDATE Passenger]\<rparr>)))"

definition passengers_delete :: "string \<Rightarrow> db \<Rightarrow> response \<times> db" where
  "passengers_delete rid s =
    (if passenger_by_id (Some rid) s = [] then (reply 404 ''Passenger not found'', s)
     else
       let relatedBookings =
             length (filter (\<lambda>r. sql_eq (bk_passenger_id r) (Some rid)) (booking_tbl s))
       in
       if relatedBookings > 0
       then (reply_data 400 ''Cannot delete passenger with related bookings''
               (Counts [(''bookings'', relatedBookings)]), s)
       else (reply 200 ''Passenger deleted successfully'',
             s\<lparr>passenger_tbl := delete_where (\<lambda>r. sql_eq (pa_id r) (Some rid)) (passenger_tbl s),
               journal := journal s @ [DELETE Passenger]\<rparr>))"

section \<open>routes/aircraft.js\<close>

definition aircraft_checks :: "body \<Rightarrow> db \<Rightarrow> response option" where
  "aircraft_checks b s =
    (let registration_number = b ''registration_number''; model = b ''model'';
         airline_id = b ''airline_id''
     in
     if \<not> truthy registration_number \<or> \<not> truthy model
     then Some (reply 400 ''Registration number and model are required'')
     else if truthy airline_id \<and> airline_by_id (prepareValue airline_id) s = []
     then Some (reply 400 ''Specified airline does not exist'')
     else None)"

definition aircraft_params :: "col \<Rightarrow> body \<Rightarrow> aircraft_row" where
  "aircraft_params i b =
     \<lparr>ac_id = i,
      ac_registration_number = prepareValue (b ''registration_number''),
      ac_model = prepareValue (b ''model''),
      ac_manufacturer = prepareValue (b ''manufacturer''),
      ac_capacity = prepareValue (b ''capacity''),
      ac_year_manufactured = prepareValue (b ''year_manufactured''),
      ac_airline_id = prepareValue (b ''airline_id'')\<rparr>"

definition aircraft_post :: "env \<Rightarrow> body \<Rightarrow> db \<Rightarrow> response \<times> db" where
  "aircraft_post e b s =
    (case aircraft_checks b s of
       Some r \<Rightarrow> (r, s)
     | None \<Rightarrow>
        (case insert_into (aircraft_values e (aircraft_params (Some (uuidv4 e)) b))
                (\<lambda>row. aircraft_key_free row s \<and> aircraft_constraints row s) (aircraft_tbl s) of
           None \<Rightarrow> (server_error, s)
         | Some (newAircraft, rows) \<Rightarrow>
             (reply_data 201 ''Aircraft created successfully'' (AircraftData newAircraft),
              s\<lparr>aircraft_tbl := rows, journal := journal s @ [INSERT Aircraft]\<rparr>)))"

definition aircraft_set :: "aircraft_row \<Rightarrow> aircraft_row \<Rightarrow> aircraft_row" where
  "aircraft_set v r =
     r\<lparr>ac_registration_number := ac_registration_number v,
       ac_model := ac_model v,
       ac_manufacturer := ac_manufacturer v,
       ac_capacity := ac_capacity v,
       ac_year_manufactured := ac_year_manufactured v,
       ac_airline_id := ac_airline_id v\<rparr>"

definition aircraft_put :: "env \<Rightarrow> string \<Rightarrow> body \<Rightarrow> db \<Rightarrow> response \<times> db" where
  "aircraft_put e rid b s =
    (case aircraft_checks b s of
       Some r \<Rightarrow> (r, s)
     | None \<Rightarrow>
        (case update_set (aircraft_values e (aircraft_params (Some rid) b))
                (\<lambda>v. aircraft_constraints v s) (\<lambda>r. sql_eq (ac_id r) (Some rid)) aircraft_set
                (aircraft_tbl s) of
           None \<Rightarrow> (server_error, s)
         | Some (updatedAircraft, rows) \<Rightarrow>
             let s1 = s\<lparr>aircraft_tbl := rows, journal := journal s @ [UPDATE Aircraft]\<rparr>
             in if updatedAircraft = [] then (reply 404 ''Aircraft not found'', s1)
                else (reply_data 200 ''Aircraft updated successfully''
                        (first_row AircraftData updatedAircraft), s1)))"

definition aircraft_delete :: "string \<Rightarrow> db \<Rightarrow> response \<times> db" where
  "aircraft_delete rid s =
    (if aircraft_by_id (Some rid) s = [] then (reply 404 ''Aircraft not found'', s)
     else
       let relatedFlights =
             length (filter (\<lambda>r. sql_eq (fl_aircraft_id r) (Some rid)) (flight_tbl s))
       in
       if relatedFlights > 0
       then (reply_data 400 ''Cannot delete aircraft with related flights''
               (Counts [(''flights'', relatedFlights)]), s)
       else (reply 200 ''Aircraft deleted successfully'',
             s\<lparr>aircraft_tbl := delete_where (\<lambda>r. sql_eq (ac_id r) (Some rid)) (aircraft_tbl s),
               journal := journal s @ [DELETE Aircraft]\<rparr>))"

section \<open>routes/airports.js\<close>

definition airport_params :: "col \<Rightarrow> body \<Rightarrow> airport_row" where
  "airport_params i b =
     \<lparr>ap_id = i,
      ap_name = prepareValue (b ''name''),
      ap_iata_code = prepareValue (b ''iata_code''),
      ap_city = prepareValue (b ''city''),
      ap_country = prepareValue (b ''country''),
      ap_latitude = prepareValue (b ''latitude''),
      ap_longitude = prepareValue (b ''longitude'')\<rparr>"

definition airports_post :: "env \<Rightarrow> body \<Rightarrow> db \<Rightarrow> response \<times> db" where
  "airports_post e b s =
    (if \<not> truthy (b ''name'') then (reply 400 ''Airport name is required'', s)
     else
       (case insert_into (airport_values e (airport_params (Some (uuidv4 e)) b))
               (\<lambda>row. airport_key_free row s \<and> airport_constraints row s) (airport_tbl s) of
          None \<Rightarrow> (server_error, s)
        | Some (newAirport, rows) \<Rightarrow>
            (reply_data 201 ''Airport created successfully'' (AirportData newAirport),
             s\<lparr>airport_tbl := rows, journal := journal s @ [INSERT Airport]\<rparr>)))"

definition airport_set :: "airport_row \<Rightarrow> airport_row \<Rightarrow> airport_row" where
  "airport_set v r =
     r\<lparr>ap_name := ap_name v,
       ap_iata_code := ap_iata_code v,
       ap_city := ap_city v,
       ap_country := ap_country v,
       ap_latitude := ap_latitude v,
       ap_longitude := ap_longitude v\<rparr>"

definition airports_put :: "env \<Rightarrow> string \<Rightarrow> body \<Rightarrow> db \<Rightarrow> response \<times> db" where
  "airports_put e rid b s =
    (if \<not> truthy (b ''name'') then (reply 400 ''Airport name is required'', s)
     else
       (case update_set (airport_values e (airport_params (Some rid) b))
               (\<lambda>v. airport_constraints v s) (\<lambda>r. sql_eq (ap_id r) (Some rid)) airport_set
               (airport_tbl s) of
          None \<Rightarrow> (server_error, s)
        | Some (updatedAirport, rows) \<Rightarrow>
            let s1 = s\<lparr>airport_tbl := rows, journal := journal s @ [UPDATE Airport]\<rparr>
            in if updatedAirport = [] then (reply 404 ''Airport not found'', s1)
               else (reply_data 200 ''Airport updated successfully''
                       (first_row AirportData updatedAirport), s1)))"

definition airports_delete :: "string \<Rightarrow> db \<Rightarrow> response \<times> db" where
  "airports_delete rid s =
    (if airport_by_id (Some rid) s = [] then (reply 404 ''Airport not found'', s)
     else
       let departingFlights =
             length (filter (\<lambda>r. sql_eq (fl_departure_airport_id r) (Some rid)) (flight_tbl s));
           arrivingFlights =
             length (filter (\<lambda>r. sql_eq (fl_arrival_airport_id r) (Some rid)) (flight_tbl s))
       in
       if departingFlights > 0 \<or> arrivingFlights > 0
       then (reply_data 400 ''Cannot delete airport with related flights''
               (Counts [(''departing'', departingFlights), (''arriving'', arrivingFlights)]), s)
       else (reply 200 ''Airport deleted successfully'',
             s\<lparr>airport_tbl := delete_where (\<lambda>r. sql_eq (ap_id r) (Some rid)) (airport_tbl s),
               journal := journal s @ [DELETE Airport]\<rparr>))"

section \<open>routes/airlines.js\<close>

definition airline_params :: "col \<Rightarrow> body \<Rightarrow> airline_row" where
  "airline_params i b =
     \<lparr>al_id = i,
      al_name = prepareValue (b ''name''),
      al_iata_code = prepareValue (b ''iata_code''),
      al_country = prepareValue (b ''country''),
      al_founded_year = prepareValue (b ''founded_year'')\<rparr>"

definition airlines_post :: "env \<Rightarrow> body \<Rightarrow> db \<Rightarrow> response \<times> db" where
  "airlines_post e b s =
    (if \<not> truthy (b ''name'') then (reply 400 ''Airline name is required'', s)
     else
       (case insert_into (airline_values e (airline_params (Some (uuidv4 e)) b))
               (\<lambda>row. airline_key_free row s \<and> airline_constraints row s) (airline_tbl s) of
          None \<Rightarrow> (server_error, s)
        | Some (newAirline, rows) \<Rightarrow>
            (reply_data 201 ''Airline created successfully'' (AirlineData newAirline),
             s\<lparr>airline_tbl := rows, journal := journal s @ [INSERT Airline]\<rparr>)))"

definition airline_set :: "airline_row \<Rightarrow> airline_row \<Rightarrow> airline_row" where
  "airline_set v r =
     r\<lparr>al_name := al_name v,
       al_iata_code := al_iata_code v,
       al_country := al_country v,
       al_founded_year := al_founded_year v\<rparr>"

definition airlines_put :: "env \<Rightarrow> string \<Rightarrow> body \<Rightarrow> db \<Rightarrow> response \<times> db" where
  "airlines_put e rid b s =
    (if \<not> truthy (b ''name'') then (reply 400 ''Airline name is required'', s)
     else
       (case update_set (airline_values e (airline_params (Some rid) b))
               (\<lambda>v. airline_constraints v s) (\<lambda>r. sql_eq (al_id r) (Some rid)) airline_set
               (airline_tbl s) of
          None \<Rightarrow> (server_error, s)
        | Some (updatedAirline, rows) \<Rightarrow>
            let s1 = s\<lparr>airline_tbl := rows, journal := journal s @ [UPDATE Airline]\<rparr>
            in if updatedAirline = [] then (reply 404 ''Airline not found'', s1)
               else (reply_data 200 ''Airline updated successfully''
                       (first_row AirlineData updatedAirline), s1)))"

definition airlines_delete :: "string \<Rightarrow> db \<Rightarrow> response \<times> db" where
  "airlines_delete rid s =
    (if airline_by_id (Some rid) s = [] then (reply 404 ''Airline not found'', s)
     else
       let relatedAircraft =
             length (filter (\<lambda>r. sql_eq (ac_airline_id r) (Some rid)) (aircraft_tbl s));
           relatedFlights =
             length (filter (\<lambda>r. sql_eq (fl_airline_id r) (Some rid)) (flight_tbl s));
           relatedCrewMembers =
             length (filter (\<lambda>r. sql_eq (cm_airline_id r) (Some rid)) (crew_member_tbl s))
       in
       if relatedAircraft > 0 \<or> relatedFlights > 0 \<or> relatedCrewMembers > 0
       then (reply_data 400 ''Cannot delete airline with related records''
               (Counts [(''aircraft'', relatedAircraft), (''flights'', relatedFlights),
                        (''crewMembers'', relatedCrewMembers)]), s)
       else (reply 200 ''Airline deleted successfully'',
             s\<lparr>airline_tbl := delete_where (\<lambda>r. sql_eq (al_id r) (Some rid)) (airline_tbl s),
               journal := journal s @ [DELETE Airline]\<rparr>))"

section \<open>routes/crew-members.js\<close>

definition crew_member_checks :: "body \<Rightarrow> db \<Rightarrow> response option" where
  "crew_member_checks b s =
    (let first_name = b ''first_name''; last_name = b ''last_name'';
         position = b ''position''; airline_id = b ''airline_id''
     in
     if \<not> truthy first_name \<or> \<not> truthy last_name \<or> \<not> truthy position \<or> \<not> truthy airline_id
     then Some (reply 400 ''First name, last name, position, and airline ID are required'')
     else if airline_by_id (prepareValue airline_id) s = []
     then Some (reply 400 ''Airline does not exist'')
     else None)"

definition crew_member_params :: "col \<Rightarrow> body \<Rightarrow> crew_member_row" where
  "crew_member_params i b =
     \<lparr>cm_id = i,
      cm_first_name = prepareValue (b ''first_name''),
      cm_last_name = prepareValue (b ''last_name''),
      cm_position = prepareValue (b ''position''),
      cm_airline_id = prepareValue (b ''airline_id''),
      cm_license_number = prepareValue (b ''license_number''),
      cm_experience_years = prepareValue (b ''experience_years'')\<rparr>"

definition crew_members_post :: "env \<Rightarrow> body \<Rightarrow> db \<Rightarrow> response \<times> db" where
  "crew_members_post e b s =
    (case crew_member_checks b s of
       Some r \<Rightarrow> (r, s)
     | None \<Rightarrow>
        (case insert_into (crew_member_values e (crew_member_params (Some (uuidv4 e)) b))
                (\<lambda>row. crew_member_key_free row s \<and> crew_member_constraints row s)
                (crew_member_tbl s) of
           None \<Rightarrow> (server_error, s)
         | Some (newCrewMember, rows) \<Rightarrow>
             (reply_data 201 ''Crew member created successfully'' (CrewMemberData newCrewMember),
              s\<lparr>crew_member_tbl := rows, journal := journal s @ [INSERT CrewMember]\<rparr>)))"

definition crew_member_set :: "crew_member_row \<Rightarrow> crew_member_row \<Rightarrow> crew_member_row" where
  "crew_member_set v r =
     r\<lparr>cm_first_name := cm_first_name v,
       cm_last_name := cm_last_name v,
       cm_position := cm_position v,
       cm_airline_id := cm_airline_id v,
       cm_license_number := cm_license_number v,
       cm_experience_years := cm_experience_years v\<rparr>"

definition crew_members_put :: "env \<Rightarrow> string \<Rightarrow> body \<Rightarrow> db \<Rightarrow> response \<times> db" where
  "crew_members_put e rid b s =
    (if crew_member_by_id (Some rid) s = [] then (reply 404 ''Crew member not found'', s)
     else
       case crew_member_checks b s of
         Some r \<Rightarrow> (r, s)
       | None \<Rightarrow>
          (case update_set (crew_member_values e (crew_member_params (Some rid) b))
                  (\<lambda>v. crew_member_constraints v s) (\<lambda>r. sql_eq (cm_id r) (Some rid))
                  crew_member_set (crew_member_tbl s) of
             None \<Rightarrow> (server_error, s)
           | Some (updatedCrewMember, rows) \<Rightarrow>
               (reply_data 200 ''Crew member updated successfully''
                  (first_row CrewMemberData updatedCrewMember),
                s\<lparr>crew_member_tbl := rows, journal := journal s @ [UPDATE CrewMember]\<rparr>)))"

definition crew_members_delete :: "string \<Rightarrow> db \<Rightarrow> response \<times> db" where
  "crew_members_delete rid s =
    (if crew_member_by_id (Some rid) s = [] then (reply 404 ''Crew member not found'', s)
     else
       let flightAssignments =
             length (filter (\<lambda>r. sql_eq (fc_crew_member_id r) (Some rid)) (flight_crew_tbl s));
           s1 = (if flightAssignments > 0
                 then s\<lparr>flight_crew_tbl :=
                          delete_where (\<lambda>r. sql_eq (fc_crew_member_id r) (Some rid))
                            (flight_crew_tbl s),
                        journal := journal s @ [DELETE FlightCrew]\<rparr>
                 else s);
           s2 = s1\<lparr>crew_member_tbl :=
                     delete_where (\<lambda>r. sql_eq (cm_id r) (Some rid)) (crew_member_tbl s1),
                   journal := journal s1 @ [DELETE CrewMember]\<rparr>
       in (reply 200 ''Crew member deleted successfully'', s2))"

text \<open>\<open>router.post('/assign')\<close>\<close>

definition crew_assign :: "body \<Rightarrow> db \<Rightarrow> response \<times> db" where
  "crew_assign b s =
    (let flight_id = b ''flight_id''; crew_member_id = b ''crew_member_id''; role = b ''role'' in
     if \<not> truthy flight_id \<or> \<not> truthy crew_member_id \<or> \<not> truthy role
     then (reply 400 ''Flight ID, crew member ID, and role are required'', s)
     else
       let flight = flight_by_id (prepareValue flight_id) s in
       if flight = [] then (reply 400 ''Flight does not exist'', s)
       else
         let crewMember = crew_member_by_id (prepareValue crew_member_id) s in
         if crewMember = [] then (reply 400 ''Crew member does not exist'', s)
         else if cm_airline_id (hd crewMember) \<noteq> fl_airline_id (hd flight)
         then (reply 400 ''Crew member does not belong to the airline operating this flight'', s)
         else if assignment_rows (prepareValue flight_id) (prepareValue crew_member_id) s \<noteq> []
         then (reply 400 ''This crew member is already assigned to this flight'', s)
         else
           (case insert_into
                   (Some \<lparr>fc_flight_id = prepareValue flight_id,
                          fc_crew_member_id = prepareValue crew_member_id,
                          fc_role = prepareValue role\<rparr>)
                   (\<lambda>row. flight_crew_key_free row s \<and> flight_crew_constraints row s)
                   (flight_crew_tbl s) of
              None \<Rightarrow> (server_error, s)
            | Some (newAssignment, rows) \<Rightarrow>
                (reply_data 201 ''Crew member assigned to flight successfully''
                   (FlightCrewData newAssignment),
                 s\<lparr>flight_crew_tbl := rows, journal := journal s @ [INSERT FlightCrew]\<rparr>)))"

text \<open>\<open>router.delete('/assign')\<close>. No request reaches this handler: see \<open>handle\<close> below.\<close>

definition crew_unassign :: "body \<Rightarrow> db \<Rightarrow> response \<times> db" where
  "crew_unassign b s =
    (let flight_id = b ''flight_id''; crew_member_id = b ''crew_member_id'' in
     if \<not> truthy flight_id \<or> \<not> truthy crew_member_id
     then (reply 400 ''Flight ID and crew member ID are required'', s)
     else if assignment_rows (prepareValue flight_id) (prepareValue crew_member_id) s = []
     then (reply 404 ''Assignment not found'', s)
     else (reply 200 ''Crew member removed from flight successfully'',
           s\<lparr>flight_crew_tbl :=
                delete_where (\<lambda>r. sql_eq (fc_flight_id r) (prepareValue flight_id)
                                   \<and> sql_eq (fc_crew_member_id r) (prepareValue crew_member_id))
                  (flight_crew_tbl s),
             journal := journal s @ [DELETE FlightCrew]\<rparr>))"

section \<open>The mutating requests\<close>

text \<open>
  One constructor for each request that writes, with the route parameter \<open>:id\<close> and the
  request body it carries. \<open>handle\<close> is the routing of Express: the first route
  registered that matches the method and the path runs. In crew-members.js
  \<open>router.delete('/:id')\<close> (line 130) is registered before \<open>router.delete('/assign')\<close>
  (line 209) and answers every request itself, so the request \<open>DeleteAssign\<close>,
  DELETE \<open>/crew-members/assign\<close>, runs the delete of the crew member with the id
  \<open>assign\<close>. (\<open>router.post('/')\<close> matches the path \<open>/\<close> only, so \<open>PostAssign\<close>
  reaches \<open>router.post('/assign')\<close>.)
\<close>

datatype request =
  PostAirline body | PutAirline string body | DeleteAirline string
| PostAirport body | PutAirport string body | DeleteAirport string
| PostAircraft body | PutAircraft string body | DeleteAircraft string
| PostFlight body | PutFlight string body | DeleteFlight string
| PostPassenger body | PutPassenger string body | DeletePassenger string
| PostBooking body | PutBooking string body | DeleteBooking string
| PostCrewMember body | PutCrewMember string body | DeleteCrewMember string
| PostAssign body | DeleteAssign body

fun handle :: "env \<Rightarrow> request \<Rightarrow> db \<Rightarrow> response \<times> db" where
  "handle e (PostAirline b) s = airlines_post e b s"
| "handle e (PutAirline rid b) s = airlines_put e rid b s"
| "handle e (DeleteAirline rid) s = airlines_delete rid s"
| "handle e (PostAirport b) s = airports_post e b s"
| "handle e (PutAirport rid b) s = airports_put e rid b s"
| "handle e (DeleteAirport rid) s = airports_delete rid s"
| "handle e (PostAircraft b) s = aircraft_post e b s"
| "handle e (PutAircraft rid b) s = aircraft_put e rid b s"
| "handle e (DeleteAircraft rid) s = aircraft_delete rid s"
| "handle e (PostFlight b) s = flights_post e b s"
| "handle e (PutFlight rid b) s = flights_put e rid b s"
| "handle e (DeleteFlight rid) s = flights_delete rid s"
| "handle e (PostPassenger b) s = passengers_post e b s"
| "handle e (PutPassenger rid b) s = passengers_put e rid b s"
| "handle e (DeletePassenger rid) s = passengers_delete rid s"
| "handle e (PostBooking b) s = bookings_post e b s"
| "handle e (PutBooking rid b) s = bookings_put e rid b s"
| "handle e (DeleteBooking rid) s = bookings_delete rid s"
| "handle e (PostCrewMember b) s = crew_members_post e b s"
| "handle e (PutCrewMember rid b) s = crew_members_put e rid b s"
| "handle e (DeleteCrewMember rid) s = crew_members_delete rid s"
| "handle e (PostAssign b) s = crew_assign b s"
| "handle e (DeleteAssign b) s = crew_members_delete ''assign'' s"

section \<open>Sample data\<close>

text \<open>
  A store holding part of the sample data of the README: airline \<open>a3\<close> has no aircraft,
  flight or crew member, flight \<open>f1\<close> has a booking and flight \<open>f4\<close> has none, and
  both flights have crew assigned.
\<close>

definition sample_db :: db where
  "sample_db =
    \<lparr>airline_tbl =
      [\<lparr>al_id = Some ''a1'', al_name = Some ''Air America'', al_iata_code = Some ''AA'', al_country = Some ''United States'', al_founded_year = Some ''1950''\<rparr>,
       \<lparr>al_id = Some ''a2'', al_name = Some ''British Airways'', al_iata_code = Some ''BA'', al_country = Some ''United Kingdom'', al_founded_year = Some ''1974''\<rparr>,
       \<lparr>al_id = Some ''a3'', al_name = Some ''Lufthansa'', al_iata_code = Some ''LH'', al_country = Some ''Germany'', al_founded_year = Some ''1953''\<rparr>],
     airport_tbl =
      [\<lparr>ap_id = Some ''ap1'', ap_name = Some ''John F. Kennedy International Airport'', ap_iata_code = Some ''JFK'', ap_city = Some ''New York'', ap_country = Some ''United States'', ap_latitude = Some ''40.6413'', ap_longitude = Some ''-73.7781''\<rparr>,
       \<lparr>ap_id = Some ''ap2'', ap_name = Some ''Heathrow Airport'', ap_iata_code = Some ''LHR'', ap_city = Some ''London'', ap_country = Some ''United Kingdom'', ap_latitude = Some ''51.4700'', ap_longitude = Some ''-0.4543''\<rparr>,
       \<lparr>ap_id = Some ''ap4'', ap_name = Some ''Los Angeles International Airport'', ap_iata_code = Some ''LAX'', ap_city = Some ''Los Angeles'', ap_country = Some ''United States'', ap_latitude = Some ''33.9416'', ap_longitude = Some ''-118.4085''\<rparr>],
     aircraft_tbl =
      [\<lparr>ac_id = Some ''ac1'', ac_registration_number = Some ''N12345'', ac_model = Some ''Boeing 747'', ac_manufacturer = Some ''Boeing'', ac_capacity = Some ''366'', ac_year_manufactured = Some ''2010'', ac_airline_id = Some ''a1''\<rparr>,
       \<lparr>ac_id = Some ''ac2'', ac_registration_number = Some ''G-XWBA'', ac_model = Some ''Airbus A350'', ac_manufacturer = Some ''Airbus'', ac_capacity = Some ''331'', ac_year_manufactured = Some ''2015'', ac_airline_id = Some ''a2''\<rparr>,
       \<lparr>ac_id = Some ''ac4'', ac_registration_number = Some ''N54321'', ac_model = Some ''Boeing 737'', ac_manufacturer = Some ''Boeing'', ac_capacity = Some ''189'', ac_year_manufactured = Some ''2018'', ac_airline_id = Some ''a1''\<rparr>],
     flight_tbl =
      [\<lparr>fl_id = Some ''f1'', fl_flight_number = Some ''AA101'', fl_departure_airport_id = Some ''ap1'', fl_arrival_airport_id = Some ''ap2'', fl_departure_time = Some ''2023-06-01 08:00:00'', fl_arrival_time = Some ''2023-06-01 20:00:00'', fl_aircraft_id = Some ''ac1'', fl_airline_id = Some ''a1'', fl_status = Some ''Completed''\<rparr>,
       \<lparr>fl_id = Some ''f4'', fl_flight_number = Some ''AA404'', fl_departure_airport_id = Some ''ap1'', fl_arrival_airport_id = Some ''ap4'', fl_departure_time = Some ''2023-06-05 10:00:00'', fl_arrival_time = Some ''2023-06-05 13:00:00'', fl_aircraft_id = Some ''ac4'', fl_airline_id = Some ''a1'', fl_status = Some ''Scheduled''\<rparr>],
     passenger_tbl =
      [\<lparr>pa_id = Some ''p1'', pa_first_name = Some ''John'', pa_last_name = Some ''Doe'', pa_email = Some ''john.doe@example.com'', pa_phone = Some ''123-456-7890'', pa_passport_number = Some ''US123456'', pa_nationality = Some ''American'', pa_date_of_birth = Some ''1980-01-15''\<rparr>,
       \<lparr>pa_id = Some ''p2'', pa_first_name = Some ''Jane'', pa_last_name = Some ''Smith'', pa_email = Some ''jane.smith@example.com'', pa_phone = Some ''234-567-8901'', pa_passport_number = Some ''UK234567'', pa_nationality = Some ''British'', pa_date_of_birth = Some ''1985-05-20''\<rparr>],
     booking_tbl =
      [\<lparr>bk_id = Some ''b1'', bk_flight_id = Some ''f1'', bk_passenger_id = Some ''p1'', bk_booking_date = Some ''2023-05-01 12:00:00'', bk_seat_number = Some ''12A'', bk_booking_status = Some ''Confirmed'', bk_price = Some ''450.00''\<rparr>],
     crew_member_tbl =
      [\<lparr>cm_id = Some ''c1'', cm_first_name = Some ''Michael'', cm_last_name = Some ''Johnson'', cm_position = Some ''Pilot'', cm_airline_id = Some ''a1'', cm_license_number = Some ''PIL123'', cm_experience_years = Some ''15''\<rparr>,
       \<lparr>cm_id = Some ''c2'', cm_first_name = Some ''Sarah'', cm_last_name = Some ''Williams'', cm_position = Some ''Flight Attendant'', cm_airline_id = Some ''a1'', cm_license_number = Some ''FA234'', cm_experience_years = Some ''8''\<rparr>,
       \<lparr>cm_id = Some ''c3'', cm_first_name = Some ''Robert'', cm_last_name = Some ''Brown'', cm_position = Some ''Pilot'', cm_airline_id = Some ''a2'', cm_license_number = Some ''PIL345'', cm_experience_years = Some ''20''\<rparr>],
     flight_crew_tbl =
      [\<lparr>fc_flight_id = Some ''f1'', fc_crew_member_id = Some ''c1'', fc_role = Some ''Captain''\<rparr>,
       \<lparr>fc_flight_id = Some ''f4'', fc_crew_member_id = Some ''c1'', fc_role = Some ''Captain''\<rparr>,
       \<lparr>fc_flight_id = Some ''f4'', fc_crew_member_id = Some ''c2'', fc_role = Some ''Lead Flight Attendant''\<rparr>],
     journal = []\<rparr>"

text \<open>
  \<open>Date.parse\<close> on the strings of the examples below: the instants of two date-time
  strings in the ISO format, and NaN for \<open>epoch\<close> and for \<open>not a date\<close>, which
  \<open>Date.parse\<close> does not recognise. The examples apply it to no other string.
\<close>

definition sample_parse :: "string \<Rightarrow> int option" where
  "sample_parse str =
     (if str = ''2023-06-05T10:00:00Z'' then Some 1685959200000
      else if str = ''2023-06-05T13:00:00Z'' then Some 1685970000000
      else None)"

text \<open>
  The input function of TIMESTAMP on the texts of the examples below: the two date-time
  strings, and \<open>epoch\<close>, which PostgreSQL reads as 1970-01-01 00:00:00; it raises on
  \<open>not a date\<close> and on \<open>true\<close>. The examples send no other text to a TIMESTAMP
  column, and no text at all to an INTEGER, DECIMAL or DATE column.
\<close>

definition sample_timestamp_in :: "string \<Rightarrow> string option" where
  "sample_timestamp_in str =
     (if str = ''2023-06-05T10:00:00Z'' then Some ''2023-06-05 10:00:00''
      else if str = ''2023-06-05T13:00:00Z'' then Some ''2023-06-05 13:00:00''
      else if str = ''epoch'' then Some ''1970-01-01 00:00:00''
      else None)"

definition sample_env :: env where
  "sample_env =
     \<lparr>date_parse = sample_parse, uuidv4 = ''6f1c2a9e-58d3-4b7a-9c41-0e2d7b5a3f10'',
      now = ''2023-06-04 09:00:00'',
      integer_in = (\<lambda>str. None), decimal_in = (\<lambda>str. None), date_in = (\<lambda>str. None),
      timestamp_in = sample_timestamp_in\<rparr>"

text \<open>A candidate flight that passes every check against \<open>sample_db\<close>; it leaves
  \<open>status\<close> unset.\<close>

definition sample_flight :: body where
  "sample_flight = obj
     [(''flight_number'', JStr ''AA505''),
      (''departure_airport_id'', JStr ''ap2''),
      (''arrival_airport_id'', JStr ''ap4''),
      (''departure_time'', JStr ''2023-06-05T10:00:00Z''),
      (''arrival_time'', JStr ''2023-06-05T13:00:00Z''),
      (''aircraft_id'', JStr ''ac1''),
      (''airline_id'', JStr ''a1'')]"

section \<open>The checks one by one\<close>

text \<open>
  The reasons for which the specification rejects a flight write or a crew assignment.
\<close>

datatype conflict_reason =
  MissingField | SameAirport | InvalidTimeOrder | UnknownAirport | UnknownAircraft
| UnknownAirline | AircraftAirlineMismatch
| UnknownFlight | UnknownCrewMember | AirlineMismatch | DuplicateAssignment

text \<open>
  \<open>flight_check_fails e b s r\<close>: the candidate \<open>b\<close> fails the check with reason \<open>r\<close>,
  each check taken on its own. A field is present when it is truthy; the times are in
  order when both are instants and the departure is strictly before the arrival; the
  aircraft belongs to another airline when the aircraft found has an \<open>airline_id\<close> other
  than the candidate's.
\<close>

fun flight_check_fails :: "env \<Rightarrow> body \<Rightarrow> db \<Rightarrow> conflict_reason \<Rightarrow> bool" where
  "flight_check_fails e b s MissingField =
     (\<not> (truthy (b ''flight_number'') \<and> truthy (b ''departure_airport_id'')
         \<and> truthy (b ''arrival_airport_id'') \<and> truthy (b ''departure_time'')
         \<and> truthy (b ''arrival_time'') \<and> truthy (b ''aircraft_id'')
         \<and> truthy (b ''airline_id'')))"
| "flight_check_fails e b s SameAirport =
     (b ''departure_airport_id'' = b ''arrival_airport_id'')"
| "flight_check_fails e b s InvalidTimeOrder =
     (case (new_Date (date_parse e) (b ''departure_time''),
            new_Date (date_parse e) (b ''arrival_time'')) of
        (Some d, Some a) \<Rightarrow> \<not> d < a
      | _ \<Rightarrow> True)"
| "flight_check_fails e b s UnknownAirport =
     (airport_by_id (prepareValue (b ''departure_airport_id'')) s = []
      \<or> airport_by_id (prepareValue (b ''arrival_airport_id'')) s = [])"
| "flight_check_fails e b s UnknownAircraft =
     (aircraft_by_id (prepareValue (b ''aircraft_id'')) s = [])"
| "flight_check_fails e b s UnknownAirline =
     (airline_by_id (prepareValue (b ''airline_id'')) s = [])"
| "flight_check_fails e b s AircraftAirlineMismatch =
     (case aircraft_by_id (prepareValue (b ''aircraft_id'')) s of
        [] \<Rightarrow> False
      | a # _ \<Rightarrow> col_js (ac_airline_id a) \<noteq> b ''airline_id'')"
| "flight_check_fails e b s _ = False"

definition flight_check_order :: "conflict_reason list" where
  "flight_check_order =
     [MissingField, SameAirport, InvalidTimeOrder, UnknownAirport, UnknownAircraft,
      UnknownAirline, AircraftAirlineMismatch]"

text \<open>The reason a response message of the flight handlers stands for; \<open>None\<close> for the
  messages of success.\<close>

definition flight_reason :: "string \<Rightarrow> conflict_reason option" where
  "flight_reason m =
     (if m = ''All flight details are required'' then Some MissingField
      else if m = ''Departure and arrival airports must be different'' then Some SameAirport
      else if m = ''Departure time must be before arrival time'' then Some InvalidTimeOrder
      else if m = ''Departure airport does not exist'' then Some UnknownAirport
      else if m = ''Arrival airport does not exist'' then Some UnknownAirport
      else if m = ''Aircraft does not exist'' then Some UnknownAircraft
      else if m = ''Airline does not exist'' then Some UnknownAirline
      else if m = ''Aircraft does not belong to the specified airline''
      then Some AircraftAirlineMismatch
      else None)"

text \<open>\<open>times_parse e b\<close>: each of the two times that is present parses to an instant.\<close>

definition times_parse :: "env \<Rightarrow> body \<Rightarrow> bool" where
  "times_parse e b =
     ((truthy (b ''departure_time'') \<longrightarrow> new_Date (date_parse e) (b ''departure_time'') \<noteq> None)
      \<and> (truthy (b ''arrival_time'') \<longrightarrow> new_Date (date_parse e) (b ''arrival_time'') \<noteq> None))"

text \<open>\<open>store_reads_times e b\<close>: the database can read both times for its TIMESTAMP
  columns.\<close>

definition store_reads_times :: "env \<Rightarrow> body \<Rightarrow> bool" where
  "store_reads_times e b =
     (typed (timestamp_in e) (prepareValue (b ''departure_time'')) \<noteq> None
      \<and> typed (timestamp_in e) (prepareValue (b ''arrival_time'')) \<noteq> None)"

text \<open>The same for a crew assignment \<open>(flight_id, crew_member_id, role)\<close>.\<close>

fun assign_check_fails :: "body \<Rightarrow> db \<Rightarrow> conflict_reason \<Rightarrow> bool" where
  "assign_check_fails b s MissingField =
     (\<not> (truthy (b ''flight_id'') \<and> truthy (b ''crew_member_id'') \<and> truthy (b ''role'')))"
| "assign_check_fails b s UnknownFlight =
     (flight_by_id (prepareValue (b ''flight_id'')) s = [])"
| "assign_check_fails b s UnknownCrewMember =
     (crew_member_by_id (prepareValue (b ''crew_member_id'')) s = [])"
| "assign_check_fails b s AirlineMismatch =
     (case (flight_by_id (prepareValue (b ''flight_id'')) s,
            crew_member_by_id (prepareValue (b ''crew_member_id'')) s) of
        (f # _, c # _) \<Rightarrow> cm_airline_id c \<noteq> fl_airline_id f
      | _ \<Rightarrow> False)"
| "assign_check_fails b s DuplicateAssignment =
     (assignment_rows (prepareValue (b ''flight_id'')) (prepareValue (b ''crew_member_id'')) s
        \<noteq> [])"
| "assign_check_fails b s _ = False"

definition assign_check_order :: "conflict_reason list" where
  "assign_check_order =
     [MissingField, UnknownFlight, UnknownCrewMember, AirlineMismatch, DuplicateAssignment]"

definition assign_reason :: "string \<Rightarrow> conflict_reason option" where
  "assign_reason m =
     (if m = ''Flight ID, crew member ID, and role are required'' then Some MissingField
      else if m = ''Flight does not exist'' then Some UnknownFlight
      else if m = ''Crew member does not exist'' then Some UnknownCrewMember
      else if m = ''Crew member does not belong to the airline operating this flight''
      then Some AirlineMismatch
      else if m = ''This crew member is already assigned to this flight''
      then Some DuplicateAssignment
      else None)"

section \<open>What a request addresses and what it refers to\<close>








section \<open>Dependent rows\<close>

text \<open>The rows of another table whose foreign key is the given id.\<close>

definition bookings_of_flight :: "string \<Rightarrow> db \<Rightarrow> booking_row list" where
  "bookings_of_flight rid s = filter (\<lambda>r. sql_eq (bk_flight_id r) (Some rid)) (booking_tbl s)"

definition crew_of_flight :: "string \<Rightarrow> db \<Rightarrow> flight_crew_row list" where
  "crew_of_flight rid s = filter (\<lambda>r. sql_eq (fc_flight_id r) (Some rid)) (flight_crew_tbl s)"

definition flights_of_crew_member :: "string \<Rightarrow> db \<Rightarrow> flight_crew_row list" where
  "flights_of_crew_member rid s =
     filter (\<lambda>r. sql_eq (fc_crew_member_id r) (Some rid)) (flight_crew_tbl s)"

definition aircraft_of_airline :: "string \<Rightarrow> db \<Rightarrow> aircraft_row list" where
  "aircraft_of_airline rid s = filter (\<lambda>r. sql_eq (ac_airline_id r) (Some rid)) (aircraft_tbl s)"

definition flights_of_airline :: "string \<Rightarrow> db \<Rightarrow> flight_row list" where
  "flights_of_airline rid s = filter (\<lambda>r. sql_eq (fl_airline_id r) (Some rid)) (flight_tbl s)"

definition crew_members_of_airline :: "string \<Rightarrow> db \<Rightarrow> crew_member_row list" where
  "crew_members_of_airline rid s =
     filter (\<lambda>r. sql_eq (cm_airline_id r) (Some rid)) (crew_member_tbl s)"

definition flights_of_aircraft :: "string \<Rightarrow> db \<Rightarrow> flight_row list" where
  "flights_of_aircraft rid s = filter (\<lambda>r. sql_eq (fl_aircraft_id r) (Some rid)) (flight_tbl s)"

definition departures_of_airport :: "string \<Rightarrow> db \<Rightarrow> flight_row list" where
  "departures_of_airport rid s =
     filter (\<lambda>r. sql_eq (fl_departure_airport_id r) (Some rid)) (flight_tbl s)"

definition arrivals_of_airport :: "string \<Rightarrow> db \<Rightarrow> flight_row list" where
  "arrivals_of_airport rid s =
     filter (\<lambda>r. sql_eq (fl_arrival_airport_id r) (Some rid)) (flight_tbl s)"

definition bookings_of_passenger :: "string \<Rightarrow> db \<Rightarrow> booking_row list" where
  "bookings_of_passenger rid s =
     filter (\<lambda>r. sql_eq (bk_passenger_id r) (Some rid)) (booking_tbl s)"

section \<open>Auxiliary facts\<close>

lemma server_error_simps [simp]:
  "res_status server_error = 500" "res_message server_error = []" "res_data server_error = NoData"
  by (simp_all add: server_error_def)

lemma reply_simps [simp]:
  "res_status (reply c m) = c" "res_message (reply c m) = m" "res_data (reply c m) = NoData"
  "res_status (reply_data c m d) = c" "res_message (reply_data c m d) = m"
  "res_data (reply_data c m d) = d"
  by (simp_all add: reply_def reply_data_def)

lemma update_where_no_hit: "filter p rows = [] \<Longrightarrow> update_where p f rows = rows"
  by (induction rows) (auto simp: update_where_def split: if_splits)

lemma returning_empty_iff: "(returning p f rows = []) = (filter p rows = [])"
  by (simp add: returning_def)

lemma date_ge_iff:
  "date_ge x y = (case (x, y) of (Some d, Some a) \<Rightarrow> \<not> d < a | _ \<Rightarrow> False)"
  by (auto simp: date_ge_def split: option.splits)

lemma case_list_hd: "xs \<noteq> [] \<Longrightarrow> (case xs of [] \<Rightarrow> a | x # _ \<Rightarrow> f x) = f (hd xs)"
  by (cases xs) simp_all

lemma find_flight_check_order:
  "find P flight_check_order =
    (if P MissingField then Some MissingField
     else if P SameAirport then Some SameAirport
     else if P InvalidTimeOrder then Some InvalidTimeOrder
     else if P UnknownAirport then Some UnknownAirport
     else if P UnknownAircraft then Some UnknownAircraft
     else if P UnknownAirline then Some UnknownAirline
     else if P AircraftAirlineMismatch then Some AircraftAirlineMismatch
     else None)"
  by (simp add: flight_check_order_def)

lemma find_assign_check_order:
  "find P assign_check_order =
    (if P MissingField then Some MissingField
     else if P UnknownFlight then Some UnknownFlight
     else if P UnknownCrewMember then Some UnknownCrewMember
     else if P AirlineMismatch then Some AirlineMismatch
     else if P DuplicateAssignment then Some DuplicateAssignment
     else None)"
  by (simp add: assign_check_order_def)

lemma truthy_prepared: "truthy v \<Longrightarrow> \<exists>t. prepareValue v = Some t"
  by (cases v) simp_all

lemma typed_Some_iff: "(typed conv (Some t) = Some c) = (\<exists>v. conv t = Some v \<and> c = Some v)"
  by (auto simp: typed_def split: option.splits)

lemma typed_None [simp]: "typed conv None = Some None"
  by (simp add: typed_def)

lemma flight_checks_reason:
  "times_parse e b \<Longrightarrow>
   map_option (\<lambda>r. flight_reason (res_message r)) (flight_checks e b s)
     = map_option Some (find (flight_check_fails e b s) flight_check_order)"
  by (auto simp: flight_checks_def find_flight_check_order Let_def flight_reason_def
      date_ge_def times_parse_def case_list_hd split: option.splits)

lemma flight_checks_status: "flight_checks e b s = Some r \<Longrightarrow> res_status r = 400"
  by (auto simp: flight_checks_def Let_def split: if_splits)

lemma flight_checks_None_iff:
  "times_parse e b \<Longrightarrow>
   (flight_checks e b s = None) = (find (flight_check_fails e b s) flight_check_order = None)"
  using flight_checks_reason [of e b s]
  by (cases "flight_checks e b s"; cases "find (flight_check_fails e b s) flight_check_order") auto

lemma flight_checks_Some:
  "times_parse e b \<Longrightarrow> flight_checks e b s = Some r \<Longrightarrow>
     find (flight_check_fails e b s) flight_check_order = Some c \<Longrightarrow>
     flight_reason (res_message r) = Some c"
  using flight_checks_reason [of e b s] by auto

text \<open>What the checks of a flight leave to the store: reading the two times, and, for a
  create, the key.\<close>

lemma flight_checks_None_D:
  assumes "flight_checks e b s = None"
  shows "prepareValue (b ''flight_number'') \<noteq> None"
    and "prepareValue (b ''departure_time'') \<noteq> None"
    and "prepareValue (b ''arrival_time'') \<noteq> None"
    and "airport_by_id (prepareValue (b ''departure_airport_id'')) s \<noteq> []"
    and "airport_by_id (prepareValue (b ''arrival_airport_id'')) s \<noteq> []"
    and "aircraft_by_id (prepareValue (b ''aircraft_id'')) s \<noteq> []"
    and "airline_by_id (prepareValue (b ''airline_id'')) s \<noteq> []"
  using assms
  by (auto simp: flight_checks_def Let_def split: if_splits dest: truthy_prepared)

lemma flight_values_Some_iff:
  "(flight_values e v = Some w) =
     (\<exists>d a. typed (timestamp_in e) (fl_departure_time v) = Some d
          \<and> typed (timestamp_in e) (fl_arrival_time v) = Some a
          \<and> w = v\<lparr>fl_departure_time := d, fl_arrival_time := a\<rparr>)"
  by (auto simp: flight_values_def split: option.splits)

lemma flight_values_None_iff:
  "(flight_values e (flight_params i b st) = None) = (\<not> store_reads_times e b)"
  by (auto simp: flight_values_def flight_params_def store_reads_times_def split: option.splits)

lemma flight_values_constraints:
  assumes "flight_checks e b s = None" and "flight_values e (flight_params i b st) = Some w"
  shows "flight_constraints w s"
    and "fl_id w = i" and "fl_status w = prepareValue st"
    and "typed (timestamp_in e) (prepareValue (b ''departure_time'')) = Some (fl_departure_time w)"
    and "typed (timestamp_in e) (prepareValue (b ''arrival_time'')) = Some (fl_arrival_time w)"
  using assms(2) flight_checks_None_D [OF assms(1)]
  by (auto simp: flight_values_Some_iff flight_params_def flight_constraints_def refers_def
      typed_Some_iff)

lemma filter_not_none: "filter p rows = [] \<Longrightarrow> filter (\<lambda>r. \<not> p r) rows = rows"
  by (induction rows) (auto split: if_splits)

lemmas dependents_defs =
  bookings_of_flight_def crew_of_flight_def flights_of_crew_member_def aircraft_of_airline_def
  flights_of_airline_def crew_members_of_airline_def flights_of_aircraft_def
  departures_of_airport_def arrivals_of_airport_def bookings_of_passenger_def




lemma filter_update_where:
  "(\<And>r. p (f r) = p r) \<Longrightarrow> filter p (update_where p f rows) = map f (filter p rows)"
  by (induction rows) (auto simp: update_where_def)

subsection \<open>The sample data evaluated\<close>

lemmas sample_defs =
  sample_db_def sample_env_def sample_flight_def sample_parse_def sample_timestamp_in_def obj_def

lemmas lookup_defs =
  flight_by_id_def airport_by_id_def aircraft_by_id_def airline_by_id_def passenger_by_id_def
  booking_by_id_def crew_member_by_id_def assignment_rows_def sql_eq_def sql_ne_def

lemma sample_flight_passes: "flight_checks sample_env sample_flight sample_db = None"
  by (simp add: flight_checks_def sample_defs lookup_defs date_ge_def)

lemma sample_flight_same_airport:
  "flight_checks sample_env (sample_flight(''arrival_airport_id'' := JStr ''ap2'')) sample_db
     = Some (reply 400 ''Departure and arrival airports must be different'')"
  by (simp add: flight_checks_def sample_defs lookup_defs date_ge_def)

lemma sample_flight_bad_time:
  "flight_checks sample_env (sample_flight(''departure_time'' := JStr ''not a date'')) sample_db
     = None"
  by (simp add: flight_checks_def sample_defs lookup_defs date_ge_def)

lemma sample_f4_exists: "flight_by_id (Some ''f4'') sample_db \<noteq> []"
  by (simp add: sample_defs lookup_defs)

lemma sample_f9_unknown: "flight_by_id (Some ''f9'') sample_db = []"
  by (simp add: sample_defs lookup_defs)


subsection \<open>The outcome of a flight write that passes the checks\<close>

lemma flights_post_accepted:
  assumes "flight_checks e b s = None" and "store_reads_times e b"
    and "flight_by_id (Some (uuidv4 e)) s = []"
  shows "\<exists>row. flights_post e b s =
           (reply_data 201 ''Flight created successfully'' (FlightData row),
            s\<lparr>flight_tbl := flight_tbl s @ [row], journal := journal s @ [INSERT Flight]\<rparr>)
         \<and> fl_id row = Some (uuidv4 e)
         \<and> fl_status row = prepareValue (or_default (b ''status'') ''Scheduled'')
         \<and> typed (timestamp_in e) (prepareValue (b ''departure_time''))
             = Some (fl_departure_time row)
         \<and> typed (timestamp_in e) (prepareValue (b ''arrival_time''))
             = Some (fl_arrival_time row)"
proof -
  from assms(2) obtain w where
    w: "flight_values e (flight_params (Some (uuidv4 e)) b (or_default (b ''status'') ''Scheduled''))
          = Some w"
    using flight_values_None_iff [of e "Some (uuidv4 e)" b "or_default (b ''status'') ''Scheduled''"]
    by (cases "flight_values e
                 (flight_params (Some (uuidv4 e)) b (or_default (b ''status'') ''Scheduled''))") auto
  note c = flight_values_constraints [OF assms(1) w]
  from c(1,2) assms(3) have "flight_key_free w s \<and> flight_constraints w s"
    by (simp add: flight_key_free_def)
  with assms(1) w have "flights_post e b s =
           (reply_data 201 ''Flight created successfully'' (FlightData w),
            s\<lparr>flight_tbl := flight_tbl s @ [w], journal := journal s @ [INSERT Flight]\<rparr>)"
    by (simp add: flights_post_def insert_into_def)
  with c show ?thesis by blast
qed

lemma flights_post_refused:
  assumes "flight_checks e b s = None"
    and "\<not> (store_reads_times e b \<and> flight_by_id (Some (uuidv4 e)) s = [])"
  shows "flights_post e b s = (server_error, s)"
proof (cases "flight_values e
                (flight_params (Some (uuidv4 e)) b (or_default (b ''status'') ''Scheduled''))")
  case None
  with assms(1) show ?thesis by (simp add: flights_post_def insert_into_def)
next
  case (Some w)
  then have "store_reads_times e b"
    using flight_values_None_iff [of e "Some (uuidv4 e)" b "or_default (b ''status'') ''Scheduled''"]
    by auto
  with assms(2) have "flight_by_id (Some (uuidv4 e)) s \<noteq> []" by simp
  moreover from flight_values_constraints(2) [OF assms(1) Some] have "fl_id w = Some (uuidv4 e)" .
  ultimately have "\<not> flight_key_free w s" by (simp add: flight_key_free_def)
  with assms(1) Some show ?thesis by (simp add: flights_post_def insert_into_def)
qed

lemma flight_set_id [simp]: "fl_id (flight_set w r) = fl_id r"
  by (simp add: flight_set_def)

lemma flights_put_accepted:
  assumes "flight_by_id (Some rid) s \<noteq> []" and "flight_checks e b s = None"
    and "store_reads_times e b"
  shows "\<exists>w. flights_put e rid b s =
           (reply_data 200 ''Flight updated successfully''
              (first_row FlightData
                 (map (flight_set w) (flight_by_id (Some rid) s))),
            s\<lparr>flight_tbl := update_where (\<lambda>r. sql_eq (fl_id r) (Some rid)) (flight_set w)
                              (flight_tbl s),
              journal := journal s @ [UPDATE Flight]\<rparr>)
         \<and> flight_by_id (Some rid)
              (snd (flights_put e rid b s)) = map (flight_set w) (flight_by_id (Some rid) s)
         \<and> fl_status w = prepareValue (b ''status'')
         \<and> typed (timestamp_in e) (prepareValue (b ''departure_time''))
             = Some (fl_departure_time w)
         \<and> typed (timestamp_in e) (prepareValue (b ''arrival_time''))
             = Some (fl_arrival_time w)"
proof -
  from assms(3) obtain w where
    w: "flight_values e (flight_params (Some rid) b (b ''status'')) = Some w"
    using flight_values_None_iff [of e "Some rid" b "b ''status''"]
    by (cases "flight_values e (flight_params (Some rid) b (b ''status''))") auto
  note c = flight_values_constraints [OF assms(2) w]
  from assms(1,2) w c(1) have eq: "flights_put e rid b s =
           (reply_data 200 ''Flight updated successfully''
              (first_row FlightData
                 (map (flight_set w) (flight_by_id (Some rid) s))),
            s\<lparr>flight_tbl := update_where (\<lambda>r. sql_eq (fl_id r) (Some rid)) (flight_set w)
                              (flight_tbl s),
              journal := journal s @ [UPDATE Flight]\<rparr>)"
    by (simp add: flights_put_def update_set_def returning_def flight_by_id_def)
  have "flight_by_id (Some rid) (snd (flights_put e rid b s))
          = map (flight_set w) (flight_by_id (Some rid) s)"
    unfolding eq flight_by_id_def by (simp add: filter_update_where)
  with eq c show ?thesis by blast
qed

lemma flights_put_refused:
  assumes "flight_by_id (Some rid) s \<noteq> []" and "flight_checks e b s = None"
    and "\<not> store_reads_times e b"
  shows "flights_put e rid b s = (server_error, s)"
  using assms flight_values_None_iff [of e "Some rid" b "b ''status''"]
  by (simp add: flights_put_def update_set_def)


section \<open>C1: the order of the checks of a flight write\<close>

lemma sample_times_parse: "times_parse sample_env sample_flight"
  by (simp add: times_parse_def sample_defs)

lemma sample_store_reads: "store_reads_times sample_env sample_flight"
  by (simp add: store_reads_times_def typed_def sample_defs)

lemma sample_uuid_fresh: "flight_by_id (Some (uuidv4 sample_env)) sample_db = []"
  by (simp add: sample_defs lookup_defs)

text \<open>
  C1, as amended. For a candidate whose departure and arrival times, where present, parse
  to instants: the first reason in the order \<open>MissingField\<close>, \<open>SameAirport\<close>,
  \<open>InvalidTimeOrder\<close>, \<open>UnknownAirport\<close>, \<open>UnknownAircraft\<close>, \<open>UnknownAirline\<close>,
  \<open>AircraftAirlineMismatch\<close> whose check the candidate fails is the one the create
  handler reports, with status 400 and the state unchanged; a candidate failing none has
  its INSERT sent, which is answered 201 with one row inserted when the database takes it
  (it can read both times, and the new id is free) and 500 with nothing written when it
  does not. The update handler does the same (status 200 on success) when the flight
  addressed exists. For every candidate, the update handler answers 404 before any of the
  seven checks when the flight addressed does not exist.
\<close>

theorem flight_write_checks_in_order:
  "(times_parse e b \<longrightarrow>
      (find (flight_check_fails e b s) flight_check_order = Some c \<longrightarrow>
         res_status (fst (flights_post e b s)) = 400
         \<and> flight_reason (res_message (fst (flights_post e b s))) = Some c
         \<and> snd (flights_post e b s) = s)
    \<and> (find (flight_check_fails e b s) flight_check_order = None
        \<and> store_reads_times e b \<and> flight_by_id (Some (uuidv4 e)) s = [] \<longrightarrow>
         res_status (fst (flights_post e b s)) = 201
         \<and> length (flight_tbl (snd (flights_post e b s))) = Suc (length (flight_tbl s))
         \<and> journal (snd (flights_post e b s)) = journal s @ [INSERT Flight])
    \<and> (find (flight_check_fails e b s) flight_check_order = None
        \<and> \<not> (store_reads_times e b \<and> flight_by_id (Some (uuidv4 e)) s = []) \<longrightarrow>
         flights_post e b s = (server_error, s))
    \<and> (flight_by_id (Some rid) s \<noteq> []
        \<and> find (flight_check_fails e b s) flight_check_order = Some c \<longrightarrow>
         res_status (fst (flights_put e rid b s)) = 400
         \<and> flight_reason (res_message (fst (flights_put e rid b s))) = Some c
         \<and> snd (flights_put e rid b s) = s)
    \<and> (flight_by_id (Some rid) s \<noteq> []
        \<and> find (flight_check_fails e b s) flight_check_order = None
        \<and> store_reads_times e b \<longrightarrow>
         res_status (fst (flights_put e rid b s)) = 200
         \<and> flight_by_id (Some rid) (snd (flights_put e rid b s)) \<noteq> []
         \<and> journal (snd (flights_put e rid b s)) = journal s @ [UPDATE Flight])
    \<and> (flight_by_id (Some rid) s \<noteq> []
        \<and> find (flight_check_fails e b s) flight_check_order = None
        \<and> \<not> store_reads_times e b \<longrightarrow>
         flights_put e rid b s = (server_error, s)))
   \<and> (flight_by_id (Some rid) s = [] \<longrightarrow>
        flights_put e rid b s = (reply 404 ''Flight not found'', s))"
proof (intro conjI impI)
  show "flights_put e rid b s = (reply 404 ''Flight not found'', s)"
    if "flight_by_id (Some rid) s = []"
    using that by (simp add: flights_put_def)
next
  assume tp: "times_parse e b"
  {
    assume f: "find (flight_check_fails e b s) flight_check_order = Some c"
    then obtain r where r: "flight_checks e b s = Some r"
      using flight_checks_None_iff [OF tp, of s] by (cases "flight_checks e b s") auto
    note st = flight_checks_status [OF r] and re = flight_checks_Some [OF tp r f]
    from r st re show "res_status (fst (flights_post e b s)) = 400"
      and "flight_reason (res_message (fst (flights_post e b s))) = Some c"
      and "snd (flights_post e b s) = s"
      by (simp_all add: flights_post_def)
  }
  {
    assume "flight_by_id (Some rid) s \<noteq> []
        \<and> find (flight_check_fails e b s) flight_check_order = Some c"
    then have ex: "flight_by_id (Some rid) s \<noteq> []"
      and f: "find (flight_check_fails e b s) flight_check_order = Some c"
      by simp_all
    then obtain r where r: "flight_checks e b s = Some r"
      using flight_checks_None_iff [OF tp, of s] by (cases "flight_checks e b s") auto
    note st = flight_checks_status [OF r] and re = flight_checks_Some [OF tp r f]
    from ex r st re show "res_status (fst (flights_put e rid b s)) = 400"
      and "flight_reason (res_message (fst (flights_put e rid b s))) = Some c"
      and "snd (flights_put e rid b s) = s"
      by (simp_all add: flights_put_def)
  }
  {
    assume a: "find (flight_check_fails e b s) flight_check_order = None
        \<and> store_reads_times e b \<and> flight_by_id (Some (uuidv4 e)) s = []"
    then have ok: "flight_checks e b s = None"
      by (simp add: flight_checks_None_iff [OF tp])
    from flights_post_accepted [OF ok] a obtain row where
      "flights_post e b s =
           (reply_data 201 ''Flight created successfully'' (FlightData row),
            s\<lparr>flight_tbl := flight_tbl s @ [row], journal := journal s @ [INSERT Flight]\<rparr>)"
      by blast
    then show "res_status (fst (flights_post e b s)) = 201"
      and "length (flight_tbl (snd (flights_post e b s))) = Suc (length (flight_tbl s))"
      and "journal (snd (flights_post e b s)) = journal s @ [INSERT Flight]"
      by simp_all
  }
  {
    assume a: "find (flight_check_fails e b s) flight_check_order = None
        \<and> \<not> (store_reads_times e b \<and> flight_by_id (Some (uuidv4 e)) s = [])"
    then have ok: "flight_checks e b s = None"
      by (simp add: flight_checks_None_iff [OF tp])
    from a show "flights_post e b s = (server_error, s)"
      by (intro flights_post_refused [OF ok]) simp
  }
  {
    assume a: "flight_by_id (Some rid) s \<noteq> []
        \<and> find (flight_check_fails e b s) flight_check_order = None
        \<and> store_reads_times e b"
    then have ok: "flight_checks e b s = None" and ex: "flight_by_id (Some rid) s \<noteq> []"
      and rd: "store_reads_times e b"
      by (simp_all add: flight_checks_None_iff [OF tp])
    from flights_put_accepted [OF ex ok rd] obtain w where
      eq: "flights_put e rid b s =
           (reply_data 200 ''Flight updated successfully''
              (first_row FlightData (map (flight_set w) (flight_by_id (Some rid) s))),
            s\<lparr>flight_tbl := update_where (\<lambda>r. sql_eq (fl_id r) (Some rid)) (flight_set w)
                              (flight_tbl s),
              journal := journal s @ [UPDATE Flight]\<rparr>)"
      and sel: "flight_by_id (Some rid) (snd (flights_put e rid b s))
                  = map (flight_set w) (flight_by_id (Some rid) s)"
      by blast
    from eq show "res_status (fst (flights_put e rid b s)) = 200"
      and "journal (snd (flights_put e rid b s)) = journal s @ [UPDATE Flight]"
      by simp_all
    from sel ex show "flight_by_id (Some rid) (snd (flights_put e rid b s)) \<noteq> []"
      by simp
  }
  {
    assume a: "flight_by_id (Some rid) s \<noteq> []
        \<and> find (flight_check_fails e b s) flight_check_order = None
        \<and> \<not> store_reads_times e b"
    then have ok: "flight_checks e b s = None"
      by (simp add: flight_checks_None_iff [OF tp])
    from a show "flights_put e rid b s = (server_error, s)"
      by (intro flights_put_refused [OF _ ok]) simp_all
  }
qed

theorem flight_write_checks_in_order_witness:
  "times_parse sample_env sample_flight
   \<and> find (flight_check_fails sample_env sample_flight sample_db) flight_check_order = None
   \<and> store_reads_times sample_env sample_flight
   \<and> flight_by_id (Some (uuidv4 sample_env)) sample_db = []
   \<and> flight_by_id (Some ''f4'') sample_db \<noteq> []
   \<and> res_status (fst (flights_post sample_env sample_flight sample_db)) = 201
   \<and> res_status (fst (flights_put sample_env ''f4'' sample_flight sample_db)) = 200
   \<and> times_parse sample_env (sample_flight(''arrival_airport_id'' := JStr ''ap2''))
   \<and> find (flight_check_fails sample_env
              (sample_flight(''arrival_airport_id'' := JStr ''ap2'')) sample_db)
        flight_check_order = Some SameAirport
   \<and> res_status (fst (flights_post sample_env
        (sample_flight(''arrival_airport_id'' := JStr ''ap2'')) sample_db)) = 400
   \<and> snd (flights_post sample_env
        (sample_flight(''arrival_airport_id'' := JStr ''ap2'')) sample_db) = sample_db"
proof -
  let ?same = "sample_flight(''arrival_airport_id'' := JStr ''ap2'')"
  have h1: "find (flight_check_fails sample_env sample_flight sample_db) flight_check_order = None"
    using sample_flight_passes by (simp add: flight_checks_None_iff [OF sample_times_parse])
  have tp2: "times_parse sample_env ?same"
    by (simp add: times_parse_def sample_defs)
  have h2: "find (flight_check_fails sample_env ?same sample_db) flight_check_order
              = Some SameAirport"
    by (simp add: find_flight_check_order sample_defs)
  note T1 = flight_write_checks_in_order
              [where e = sample_env and b = sample_flight and s = sample_db and rid = "''f4''",
               THEN conjunct1, THEN mp, OF sample_times_parse]
  note T2 = flight_write_checks_in_order
              [where e = sample_env and b = ?same and s = sample_db and c = SameAirport,
               THEN conjunct1, THEN mp, OF tp2, THEN conjunct1, THEN mp, OF h2]
  from T1 h1 sample_store_reads sample_uuid_fresh
  have r1: "res_status (fst (flights_post sample_env sample_flight sample_db)) = 201"
    by blast
  from T1 h1 sample_store_reads sample_f4_exists
  have r2: "res_status (fst (flights_put sample_env ''f4'' sample_flight sample_db)) = 200"
    by blast
  from T2 have r3: "res_status (fst (flights_post sample_env ?same sample_db)) = 400"
    and r4: "snd (flights_post sample_env ?same sample_db) = sample_db"
    by blast+
  from sample_times_parse h1 sample_store_reads sample_uuid_fresh sample_f4_exists r1 r2 tp2 h2
    r3 r4
  show ?thesis by (intro conjI)
qed

theorem flight_write_checks_in_order_counterexample:
  "find (flight_check_fails sample_env sample_flight sample_db) flight_check_order = None
   \<and> flights_put sample_env ''f9'' sample_flight sample_db
       = (reply 404 ''Flight not found'', sample_db)
   \<and> find (flight_check_fails sample_env
              (sample_flight(''departure_time'' := JBool True)) sample_db)
        flight_check_order = None
   \<and> flights_post sample_env (sample_flight(''departure_time'' := JBool True)) sample_db
       = (server_error, sample_db)
   \<and> find (flight_check_fails sample_env
              (sample_flight(''departure_time'' := JStr ''not a date'')) sample_db)
        flight_check_order = Some InvalidTimeOrder
   \<and> flights_post sample_env (sample_flight(''departure_time'' := JStr ''not a date''))
        sample_db = (server_error, sample_db)"
proof -
  let ?b = "sample_flight(''departure_time'' := JBool True)"
  let ?n = "sample_flight(''departure_time'' := JStr ''not a date'')"
  have "find (flight_check_fails sample_env sample_flight sample_db) flight_check_order = None"
    using sample_flight_passes by (simp add: flight_checks_None_iff [OF sample_times_parse])
  moreover have "flights_put sample_env ''f9'' sample_flight sample_db
       = (reply 404 ''Flight not found'', sample_db)"
    by (simp add: flights_put_def sample_f9_unknown)
  moreover have tp: "times_parse sample_env ?b"
    by (simp add: times_parse_def sample_defs)
  have ok: "flight_checks sample_env ?b sample_db = None"
    by (simp add: flight_checks_def sample_defs lookup_defs date_ge_def)
  have nr: "\<not> store_reads_times sample_env ?b"
    by (simp add: store_reads_times_def typed_def sample_defs)
  have "find (flight_check_fails sample_env ?b sample_db) flight_check_order = None"
    using ok by (simp add: flight_checks_None_iff [OF tp])
  moreover have "flights_post sample_env ?b sample_db = (server_error, sample_db)"
    using nr by (intro flights_post_refused [OF ok]) simp
  moreover have "find (flight_check_fails sample_env ?n sample_db) flight_check_order
                   = Some InvalidTimeOrder"
    by (simp add: find_flight_check_order sample_defs)
  moreover have "\<not> store_reads_times sample_env ?n"
    by (simp add: store_reads_times_def typed_def sample_defs)
  then have "flights_post sample_env ?n sample_db = (server_error, sample_db)"
    by (intro flights_post_refused [OF sample_flight_bad_time]) simp
  ultimately show ?thesis by (intro conjI)
qed

section \<open>C2: a rejected request writes nothing\<close>


lemma aircraft_checks_status: "aircraft_checks b s = Some r \<Longrightarrow> res_status r = 400"
  by (auto simp: aircraft_checks_def Let_def insert_into_def update_set_def split: if_splits option.splits prod.splits)

lemma crew_member_checks_status: "crew_member_checks b s = Some r \<Longrightarrow> res_status r = 400"
  by (auto simp: crew_member_checks_def Let_def insert_into_def update_set_def split: if_splits option.splits prod.splits)

lemma airlines_rejected:
  "res_status (fst (airlines_post e b s)) \<noteq> 201 \<Longrightarrow> snd (airlines_post e b s) = s"
  "res_status (fst (airlines_put e rid b s)) = 400 \<Longrightarrow> snd (airlines_put e rid b s) = s"
  "res_status (fst (airlines_put e rid b s)) = 404 \<Longrightarrow>
     (snd (airlines_put e rid b s))\<lparr>journal := journal s\<rparr> = s"
  "res_status (fst (airlines_delete rid s)) \<noteq> 200 \<Longrightarrow> snd (airlines_delete rid s) = s"
  by (auto simp: airlines_post_def airlines_put_def airlines_delete_def Let_def insert_into_def update_set_def
      returning_empty_iff update_where_no_hit split: if_splits option.splits prod.splits)

lemma airports_rejected:
  "res_status (fst (airports_post e b s)) \<noteq> 201 \<Longrightarrow> snd (airports_post e b s) = s"
  "res_status (fst (airports_put e rid b s)) = 400 \<Longrightarrow> snd (airports_put e rid b s) = s"
  "res_status (fst (airports_put e rid b s)) = 404 \<Longrightarrow>
     (snd (airports_put e rid b s))\<lparr>journal := journal s\<rparr> = s"
  "res_status (fst (airports_delete rid s)) \<noteq> 200 \<Longrightarrow> snd (airports_delete rid s) = s"
  by (auto simp: airports_post_def airports_put_def airports_delete_def Let_def insert_into_def update_set_def
      returning_empty_iff update_where_no_hit split: if_splits option.splits prod.splits)

lemma aircraft_rejected:
  "res_status (fst (aircraft_post e b s)) \<noteq> 201 \<Longrightarrow> snd (aircraft_post e b s) = s"
  "res_status (fst (aircraft_put e rid b s)) = 400 \<Longrightarrow> snd (aircraft_put e rid b s) = s"
  "res_status (fst (aircraft_put e rid b s)) = 404 \<Longrightarrow>
     (snd (aircraft_put e rid b s))\<lparr>journal := journal s\<rparr> = s"
  "res_status (fst (aircraft_delete rid s)) \<noteq> 200 \<Longrightarrow> snd (aircraft_delete rid s) = s"
  by (auto simp: aircraft_post_def aircraft_put_def aircraft_delete_def Let_def insert_into_def update_set_def
      returning_empty_iff update_where_no_hit split: if_splits option.splits prod.splits)

lemma flights_rejected:
  "res_status (fst (flights_post e b s)) \<noteq> 201 \<Longrightarrow> snd (flights_post e b s) = s"
  "res_status (fst (flights_put e rid b s)) \<noteq> 200 \<Longrightarrow> snd (flights_put e rid b s) = s"
  "res_status (fst (flights_delete rid s)) \<noteq> 200 \<Longrightarrow> snd (flights_delete rid s) = s"
  by (auto simp: flights_post_def flights_put_def flights_delete_def Let_def insert_into_def update_set_def
      split: if_splits option.splits prod.splits)

lemma passengers_rejected:
  "res_status (fst (passengers_post e b s)) \<noteq> 201 \<Longrightarrow> snd (passengers_post e b s) = s"
  "res_status (fst (passengers_put e rid b s)) \<noteq> 200 \<Longrightarrow> snd (passengers_put e rid b s) = s"
  "res_status (fst (passengers_delete rid s)) \<noteq> 200 \<Longrightarrow> snd (passengers_delete rid s) = s"
  by (auto simp: passengers_post_def passengers_put_def passengers_delete_def Let_def insert_into_def update_set_def
      split: if_splits option.splits prod.splits)

lemma bookings_rejected:
  "res_status (fst (bookings_post e b s)) \<noteq> 201 \<Longrightarrow> snd (bookings_post e b s) = s"
  "res_status (fst (bookings_put e rid b s)) \<noteq> 200 \<Longrightarrow> snd (bookings_put e rid b s) = s"
  "res_status (fst (bookings_delete rid s)) \<noteq> 200 \<Longrightarrow> snd (bookings_delete rid s) = s"
  by (auto simp: bookings_post_def bookings_put_def bookings_delete_def Let_def insert_into_def update_set_def
      split: if_splits option.splits prod.splits)

lemma crew_members_rejected:
  "res_status (fst (crew_members_post e b s)) \<noteq> 201 \<Longrightarrow> snd (crew_members_post e b s) = s"
  "res_status (fst (crew_members_put e rid b s)) \<noteq> 200 \<Longrightarrow> snd (crew_members_put e rid b s) = s"
  "res_status (fst (crew_members_delete rid s)) \<noteq> 200 \<Longrightarrow> snd (crew_members_delete rid s) = s"
  "res_status (fst (crew_assign b s)) \<noteq> 201 \<Longrightarrow> snd (crew_assign b s) = s"
  "res_status (fst (crew_unassign b s)) \<noteq> 200 \<Longrightarrow> snd (crew_unassign b s) = s"
  by (auto simp: crew_members_post_def crew_members_put_def crew_members_delete_def
      crew_assign_def crew_unassign_def Let_def insert_into_def update_set_def split: if_splits option.splits prod.splits)

text \<open>
  C2. For each of the mutating requests: when the response has status 400 (a validation or
  business-rule rejection), the state returned is the state received, journal included, so
  no INSERT, UPDATE or DELETE was executed. When the response has status 404 the tables
  are unchanged as well. The same holds of the handler \<open>router.delete('/assign')\<close>,
  which no request reaches.
\<close>

theorem rejected_request_writes_nothing:
  "(res_status (fst (handle e req s)) = 400 \<longrightarrow> snd (handle e req s) = s)
   \<and> (res_status (fst (handle e req s)) = 404 \<longrightarrow>
        (snd (handle e req s))\<lparr>journal := journal s\<rparr> = s)
   \<and> (res_status (fst (crew_unassign b s)) = 400 \<longrightarrow> snd (crew_unassign b s) = s)
   \<and> (res_status (fst (crew_unassign b s)) = 404 \<longrightarrow> snd (crew_unassign b s) = s)"
proof (intro conjI)
  show "res_status (fst (crew_unassign b s)) = 400 \<longrightarrow> snd (crew_unassign b s) = s"
    and "res_status (fst (crew_unassign b s)) = 404 \<longrightarrow> snd (crew_unassign b s) = s"
    by (simp_all add: crew_members_rejected)
  have "(res_status (fst (handle e req s)) = 400 \<longrightarrow> snd (handle e req s) = s)
   \<and> (res_status (fst (handle e req s)) = 404 \<longrightarrow>
        (snd (handle e req s))\<lparr>journal := journal s\<rparr> = s)"
  proof (cases req)
    case (PutAirline rid b)
    then show ?thesis using airlines_rejected(2,3) [of e rid b s] by simp
  next
    case (PutAirport rid b)
    then show ?thesis using airports_rejected(2,3) [of e rid b s] by simp
  next
    case (PutAircraft rid b)
    then show ?thesis using aircraft_rejected(2,3) [of e rid b s] by simp
  qed (simp_all add: airlines_rejected airports_rejected aircraft_rejected flights_rejected
         passengers_rejected bookings_rejected crew_members_rejected)
  then show "res_status (fst (handle e req s)) = 400 \<longrightarrow> snd (handle e req s) = s"
    and "res_status (fst (handle e req s)) = 404 \<longrightarrow>
        (snd (handle e req s))\<lparr>journal := journal s\<rparr> = s"
    by simp_all
qed

theorem rejected_request_writes_nothing_witness:
  "res_status (fst (handle sample_env
       (PostFlight (sample_flight(''arrival_airport_id'' := JStr ''ap2''))) sample_db)) = 400
   \<and> snd (handle sample_env
       (PostFlight (sample_flight(''arrival_airport_id'' := JStr ''ap2''))) sample_db) = sample_db"
proof -
  have h: "res_status (fst (handle sample_env
       (PostFlight (sample_flight(''arrival_airport_id'' := JStr ''ap2''))) sample_db)) = 400"
    by (simp add: flights_post_def sample_flight_same_airport)
  with rejected_request_writes_nothing
         [of sample_env "PostFlight (sample_flight(''arrival_airport_id'' := JStr ''ap2''))"
             sample_db]
  show ?thesis by blast
qed

section \<open>C3: deleting a flight\<close>

text \<open>
  C3. For a flight that exists: when at least one booking refers to it, the delete is
  answered 400 with the number of those bookings and the state is unchanged, so the flight
  and its crew assignments stay; when no booking refers to it, the delete is answered 200,
  its crew assignments are gone and the flight is gone, every other row is kept, and the
  statements executed are the DELETE on \<open>flight_crew\<close> (when there were assignments)
  followed by the DELETE on \<open>flight\<close>.
\<close>

theorem flight_delete_blocked_or_cascades:
  assumes "flight_by_id (Some rid) s \<noteq> []"
  shows "(bookings_of_flight rid s \<noteq> [] \<longrightarrow>
           flights_delete rid s =
             (reply_data 400 ''Cannot delete flight with related bookings''
                (Counts [(''bookings'', length (bookings_of_flight rid s))]), s))
       \<and> (bookings_of_flight rid s = [] \<longrightarrow>
           fst (flights_delete rid s) = reply 200 ''Flight deleted successfully''
           \<and> flight_crew_tbl (snd (flights_delete rid s)) =
               filter (\<lambda>r. \<not> sql_eq (fc_flight_id r) (Some rid)) (flight_crew_tbl s)
           \<and> flight_tbl (snd (flights_delete rid s)) =
               filter (\<lambda>r. \<not> sql_eq (fl_id r) (Some rid)) (flight_tbl s)
           \<and> journal (snd (flights_delete rid s)) =
               journal s @ (if crew_of_flight rid s = [] then [] else [DELETE FlightCrew])
                 @ [DELETE Flight]
           \<and> (snd (flights_delete rid s))
                \<lparr>flight_crew_tbl := flight_crew_tbl s, flight_tbl := flight_tbl s,
                 journal := journal s\<rparr> = s)"
  using assms
  by (simp add: flights_delete_def dependents_defs Let_def delete_where_def filter_not_none)

theorem flight_delete_blocked_or_cascades_witness:
  "flight_by_id (Some ''f1'') sample_db \<noteq> [] \<and> bookings_of_flight ''f1'' sample_db \<noteq> []
   \<and> flights_delete ''f1'' sample_db =
        (reply_data 400 ''Cannot delete flight with related bookings''
           (Counts [(''bookings'', 1)]), sample_db)
   \<and> flight_by_id (Some ''f4'') sample_db \<noteq> [] \<and> bookings_of_flight ''f4'' sample_db = []
   \<and> crew_of_flight ''f4'' sample_db \<noteq> []
   \<and> fst (flights_delete ''f4'' sample_db) = reply 200 ''Flight deleted successfully''
   \<and> journal (snd (flights_delete ''f4'' sample_db)) = [DELETE FlightCrew, DELETE Flight]
   \<and> flight_by_id (Some ''f4'') (snd (flights_delete ''f4'' sample_db)) = []
   \<and> crew_of_flight ''f4'' (snd (flights_delete ''f4'' sample_db)) = []"
proof -
  have e1: "flight_by_id (Some ''f1'') sample_db \<noteq> []"
    by (simp add: sample_defs lookup_defs)
  have b1: "bookings_of_flight ''f1'' sample_db \<noteq> []"
    and n1: "length (bookings_of_flight ''f1'' sample_db) = 1"
    by (simp_all add: sample_defs lookup_defs bookings_of_flight_def)
  have b4: "bookings_of_flight ''f4'' sample_db = []"
    by (simp add: sample_defs lookup_defs bookings_of_flight_def)
  have c4: "crew_of_flight ''f4'' sample_db \<noteq> []"
    by (simp add: sample_defs lookup_defs crew_of_flight_def)
  have j: "journal sample_db = []"
    by (simp add: sample_defs)
  from flight_delete_blocked_or_cascades [OF e1] b1 n1
  have r1: "flights_delete ''f1'' sample_db =
        (reply_data 400 ''Cannot delete flight with related bookings''
           (Counts [(''bookings'', 1)]), sample_db)"
    by simp
  from flight_delete_blocked_or_cascades [OF sample_f4_exists] b4 c4 j
  have r4: "fst (flights_delete ''f4'' sample_db) = reply 200 ''Flight deleted successfully''"
    "journal (snd (flights_delete ''f4'' sample_db)) = [DELETE FlightCrew, DELETE Flight]"
    "flight_by_id (Some ''f4'') (snd (flights_delete ''f4'' sample_db)) = []"
    "crew_of_flight ''f4'' (snd (flights_delete ''f4'' sample_db)) = []"
    by (simp_all add: flight_by_id_def crew_of_flight_def)
  from e1 b1 r1 sample_f4_exists b4 c4 r4 show ?thesis by simp
qed

section \<open>C4: deleting an airline\<close>

text \<open>
  C4. For an airline that exists: when an aircraft, a flight or a crew member refers to it,
  the delete is answered 400 with the three counts \<open>aircraft\<close>, \<open>flights\<close> and
  \<open>crewMembers\<close>, each the number of rows referring to it, and the state is unchanged;
  when the three counts are zero the delete is answered 200 and the airline is removed,
  with nothing else changed.
\<close>

theorem airline_delete_blocked_by_dependents:
  assumes "airline_by_id (Some rid) s \<noteq> []"
  shows "(aircraft_of_airline rid s \<noteq> [] \<or> flights_of_airline rid s \<noteq> []
          \<or> crew_members_of_airline rid s \<noteq> [] \<longrightarrow>
           airlines_delete rid s =
             (reply_data 400 ''Cannot delete airline with related records''
                (Counts [(''aircraft'', length (aircraft_of_airline rid s)),
                         (''flights'', length (flights_of_airline rid s)),
                         (''crewMembers'', length (crew_members_of_airline rid s))]), s))
       \<and> (aircraft_of_airline rid s = [] \<and> flights_of_airline rid s = []
          \<and> crew_members_of_airline rid s = [] \<longrightarrow>
           fst (airlines_delete rid s) = reply 200 ''Airline deleted successfully''
           \<and> airline_tbl (snd (airlines_delete rid s)) =
               filter (\<lambda>r. \<not> sql_eq (al_id r) (Some rid)) (airline_tbl s)
           \<and> airline_by_id (Some rid) (snd (airlines_delete rid s)) = []
           \<and> journal (snd (airlines_delete rid s)) = journal s @ [DELETE Airline]
           \<and> (snd (airlines_delete rid s))\<lparr>airline_tbl := airline_tbl s, journal := journal s\<rparr> = s)"
  using assms
  by (auto simp: airlines_delete_def dependents_defs Let_def delete_where_def airline_by_id_def)

theorem airline_delete_blocked_by_dependents_witness:
  "airline_by_id (Some ''a1'') sample_db \<noteq> [] \<and> aircraft_of_airline ''a1'' sample_db \<noteq> []
   \<and> airlines_delete ''a1'' sample_db =
        (reply_data 400 ''Cannot delete airline with related records''
           (Counts [(''aircraft'', 2), (''flights'', 2), (''crewMembers'', 2)]), sample_db)
   \<and> airline_by_id (Some ''a3'') sample_db \<noteq> []
   \<and> aircraft_of_airline ''a3'' sample_db = [] \<and> flights_of_airline ''a3'' sample_db = []
   \<and> crew_members_of_airline ''a3'' sample_db = []
   \<and> fst (airlines_delete ''a3'' sample_db) = reply 200 ''Airline deleted successfully''
   \<and> airline_by_id (Some ''a3'') (snd (airlines_delete ''a3'' sample_db)) = []
   \<and> journal (snd (airlines_delete ''a3'' sample_db)) = [DELETE Airline]"
proof -
  have e1: "airline_by_id (Some ''a1'') sample_db \<noteq> []"
    and e3: "airline_by_id (Some ''a3'') sample_db \<noteq> []"
    by (simp_all add: sample_defs lookup_defs)
  have d1: "aircraft_of_airline ''a1'' sample_db \<noteq> []"
    "length (aircraft_of_airline ''a1'' sample_db) = 2"
    "length (flights_of_airline ''a1'' sample_db) = 2"
    "length (crew_members_of_airline ''a1'' sample_db) = 2"
    by (simp_all add: sample_defs lookup_defs dependents_defs)
  have d3: "aircraft_of_airline ''a3'' sample_db = []" "flights_of_airline ''a3'' sample_db = []"
    "crew_members_of_airline ''a3'' sample_db = []"
    by (simp_all add: sample_defs lookup_defs dependents_defs)
  have j: "journal sample_db = []"
    by (simp add: sample_defs)
  from airline_delete_blocked_by_dependents [OF e1] d1
  have r1: "airlines_delete ''a1'' sample_db =
        (reply_data 400 ''Cannot delete airline with related records''
           (Counts [(''aircraft'', 2), (''flights'', 2), (''crewMembers'', 2)]), sample_db)"
    by simp
  from airline_delete_blocked_by_dependents [OF e3] d3 j
  have r3: "fst (airlines_delete ''a3'' sample_db) = reply 200 ''Airline deleted successfully''"
    "airline_by_id (Some ''a3'') (snd (airlines_delete ''a3'' sample_db)) = []"
    "journal (snd (airlines_delete ''a3'' sample_db)) = [DELETE Airline]"
    by simp_all
  from e1 e3 d1(1) d3 r1 r3 show ?thesis by simp
qed

section \<open>C5: the email of a passenger is unique\<close>



section \<open>C6: the order of the checks of a crew assignment\<close>

text \<open>
  C6, as amended. The checks of a crew assignment are, in order: \<open>flight_id\<close>,
  \<open>crew_member_id\<close> and \<open>role\<close> are present, the flight exists, the crew member
  exists, the crew member's airline is the flight's airline, the pair is not assigned yet.
  The first check that fails gives the rejection, with status 400 and the state unchanged;
  a request failing none is answered 201 and appends exactly one row to \<open>flight_crew\<close>.
\<close>

theorem crew_assignment_checks_in_order:
  "(find (assign_check_fails b s) assign_check_order = Some c \<longrightarrow>
      res_status (fst (crew_assign b s)) = 400
      \<and> assign_reason (res_message (fst (crew_assign b s))) = Some c
      \<and> snd (crew_assign b s) = s)
   \<and> (find (assign_check_fails b s) assign_check_order = None \<longrightarrow>
      res_status (fst (crew_assign b s)) = 201
      \<and> snd (crew_assign b s) =
          s\<lparr>flight_crew_tbl := flight_crew_tbl s @
               [\<lparr>fc_flight_id = prepareValue (b ''flight_id''),
                 fc_crew_member_id = prepareValue (b ''crew_member_id''),
                 fc_role = prepareValue (b ''role'')\<rparr>],
            journal := journal s @ [INSERT FlightCrew]\<rparr>)"
proof -
  have ins: "insert_into
               (Some \<lparr>fc_flight_id = prepareValue (b ''flight_id''),
                      fc_crew_member_id = prepareValue (b ''crew_member_id''),
                      fc_role = prepareValue (b ''role'')\<rparr>)
               (\<lambda>row. flight_crew_key_free row s \<and> flight_crew_constraints row s)
               (flight_crew_tbl s)
             = Some (\<lparr>fc_flight_id = prepareValue (b ''flight_id''),
                      fc_crew_member_id = prepareValue (b ''crew_member_id''),
                      fc_role = prepareValue (b ''role'')\<rparr>,
                     flight_crew_tbl s @
                       [\<lparr>fc_flight_id = prepareValue (b ''flight_id''),
                         fc_crew_member_id = prepareValue (b ''crew_member_id''),
                         fc_role = prepareValue (b ''role'')\<rparr>])"
    if "truthy (b ''flight_id'')" "truthy (b ''crew_member_id'')"
      "flight_by_id (prepareValue (b ''flight_id'')) s \<noteq> []"
      "crew_member_by_id (prepareValue (b ''crew_member_id'')) s \<noteq> []"
      "assignment_rows (prepareValue (b ''flight_id'')) (prepareValue (b ''crew_member_id'')) s = []"
    using that truthy_prepared [of "b ''flight_id''"] truthy_prepared [of "b ''crew_member_id''"]
    by (auto simp: insert_into_def flight_crew_key_free_def flight_crew_constraints_def
        refers_def)
  show ?thesis
    by (auto simp: crew_assign_def find_assign_check_order Let_def assign_reason_def ins
        split: list.splits)
qed

theorem crew_assignment_checks_in_order_witness:
  "find (assign_check_fails
      (obj [(''flight_id'', JStr ''f1''), (''crew_member_id'', JStr ''c2''),
            (''role'', JStr ''Purser'')]) sample_db) assign_check_order = None
   \<and> flight_crew_tbl (snd (crew_assign
      (obj [(''flight_id'', JStr ''f1''), (''crew_member_id'', JStr ''c2''),
            (''role'', JStr ''Purser'')]) sample_db))
      = flight_crew_tbl sample_db
        @ [\<lparr>fc_flight_id = Some ''f1'', fc_crew_member_id = Some ''c2'',
             fc_role = Some ''Purser''\<rparr>]
   \<and> find (assign_check_fails
      (obj [(''flight_id'', JStr ''f1''), (''crew_member_id'', JStr ''c3''),
            (''role'', JStr ''Captain'')]) sample_db) assign_check_order = Some AirlineMismatch
   \<and> assign_reason (res_message (fst (crew_assign
      (obj [(''flight_id'', JStr ''f1''), (''crew_member_id'', JStr ''c3''),
            (''role'', JStr ''Captain'')]) sample_db))) = Some AirlineMismatch
   \<and> snd (crew_assign
      (obj [(''flight_id'', JStr ''f1''), (''crew_member_id'', JStr ''c3''),
            (''role'', JStr ''Captain'')]) sample_db) = sample_db"
proof -
  let ?ok = "obj [(''flight_id'', JStr ''f1''), (''crew_member_id'', JStr ''c2''),
            (''role'', JStr ''Purser'')]"
  let ?bad = "obj [(''flight_id'', JStr ''f1''), (''crew_member_id'', JStr ''c3''),
            (''role'', JStr ''Captain'')]"
  have h1: "find (assign_check_fails ?ok sample_db) assign_check_order = None"
    by (simp add: find_assign_check_order sample_defs lookup_defs)
  have h2: "find (assign_check_fails ?bad sample_db) assign_check_order = Some AirlineMismatch"
    by (simp add: find_assign_check_order sample_defs lookup_defs)
  from crew_assignment_checks_in_order [of ?ok sample_db] h1
  have r1: "flight_crew_tbl (snd (crew_assign ?ok sample_db))
      = flight_crew_tbl sample_db
        @ [\<lparr>fc_flight_id = Some ''f1'', fc_crew_member_id = Some ''c2'',
             fc_role = Some ''Purser''\<rparr>]"
    by (simp add: obj_def)
  from crew_assignment_checks_in_order [of ?bad sample_db AirlineMismatch] h2
  have r2: "assign_reason (res_message (fst (crew_assign ?bad sample_db))) = Some AirlineMismatch"
    "snd (crew_assign ?bad sample_db) = sample_db"
    by simp_all
  from h1 h2 r1 r2 show ?thesis by simp
qed

theorem crew_assignment_checks_in_order_counterexample:
  "flight_by_id (Some ''f1'') sample_db \<noteq> []
   \<and> crew_member_by_id (Some ''c2'') sample_db \<noteq> []
   \<and> cm_airline_id (hd (crew_member_by_id (Some ''c2'') sample_db))
       = fl_airline_id (hd (flight_by_id (Some ''f1'') sample_db))
   \<and> assignment_rows (Some ''f1'') (Some ''c2'') sample_db = []
   \<and> crew_assign (obj [(''flight_id'', JStr ''f1''), (''crew_member_id'', JStr ''c2''),
                        (''role'', JStr '''')]) sample_db
       = (reply 400 ''Flight ID, crew member ID, and role are required'', sample_db)"
  by (simp add: crew_assign_def sample_defs lookup_defs)

section \<open>C7: the status of a reference that does not resolve\<close>















section \<open>C8: which deletes cascade\<close>

text \<open>
  C8, as amended. Two deletes remove crew assignments before deleting the entity itself:
  the delete of a crew member, and the delete of a flight without bookings. The deletes of
  an airline, an airport, an aircraft and a passenger are answered 400 with the counts of
  the dependent rows when there are any, and leave the state unchanged; neither they nor
  the delete of a booking ever change \<open>flight_crew\<close>.
\<close>

theorem flight_and_crew_member_deletes_cascade_the_others_block:
  "(crew_member_by_id (Some rid) s \<noteq> [] \<longrightarrow>
      fst (crew_members_delete rid s) = reply 200 ''Crew member deleted successfully''
      \<and> flight_crew_tbl (snd (crew_members_delete rid s)) =
          filter (\<lambda>r. \<not> sql_eq (fc_crew_member_id r) (Some rid)) (flight_crew_tbl s)
      \<and> crew_member_tbl (snd (crew_members_delete rid s)) =
          filter (\<lambda>r. \<not> sql_eq (cm_id r) (Some rid)) (crew_member_tbl s)
      \<and> journal (snd (crew_members_delete rid s)) =
          journal s @ (if flights_of_crew_member rid s = [] then [] else [DELETE FlightCrew])
            @ [DELETE CrewMember])
   \<and> (flight_by_id (Some rid) s \<noteq> [] \<and> bookings_of_flight rid s = [] \<longrightarrow>
      fst (flights_delete rid s) = reply 200 ''Flight deleted successfully''
      \<and> flight_crew_tbl (snd (flights_delete rid s)) =
          filter (\<lambda>r. \<not> sql_eq (fc_flight_id r) (Some rid)) (flight_crew_tbl s)
      \<and> flight_tbl (snd (flights_delete rid s)) =
          filter (\<lambda>r. \<not> sql_eq (fl_id r) (Some rid)) (flight_tbl s)
      \<and> journal (snd (flights_delete rid s)) =
          journal s @ (if crew_of_flight rid s = [] then [] else [DELETE FlightCrew])
            @ [DELETE Flight])
   \<and> (airline_by_id (Some rid) s \<noteq> []
       \<and> (aircraft_of_airline rid s \<noteq> [] \<or> flights_of_airline rid s \<noteq> []
          \<or> crew_members_of_airline rid s \<noteq> []) \<longrightarrow>
      airlines_delete rid s =
        (reply_data 400 ''Cannot delete airline with related records''
           (Counts [(''aircraft'', length (aircraft_of_airline rid s)),
                    (''flights'', length (flights_of_airline rid s)),
                    (''crewMembers'', length (crew_members_of_airline rid s))]), s))
   \<and> (airport_by_id (Some rid) s \<noteq> []
       \<and> (departures_of_airport rid s \<noteq> [] \<or> arrivals_of_airport rid s \<noteq> []) \<longrightarrow>
      airports_delete rid s =
        (reply_data 400 ''Cannot delete airport with related flights''
           (Counts [(''departing'', length (departures_of_airport rid s)),
                    (''arriving'', length (arrivals_of_airport rid s))]), s))
   \<and> (aircraft_by_id (Some rid) s \<noteq> [] \<and> flights_of_aircraft rid s \<noteq> [] \<longrightarrow>
      aircraft_delete rid s =
        (reply_data 400 ''Cannot delete aircraft with related flights''
           (Counts [(''flights'', length (flights_of_aircraft rid s))]), s))
   \<and> (passenger_by_id (Some rid) s \<noteq> [] \<and> bookings_of_passenger rid s \<noteq> [] \<longrightarrow>
      passengers_delete rid s =
        (reply_data 400 ''Cannot delete passenger with related bookings''
           (Counts [(''bookings'', length (bookings_of_passenger rid s))]), s))
   \<and> (req \<in> {DeleteAirline rid, DeleteAirport rid, DeleteAircraft rid, DeletePassenger rid,
              DeleteBooking rid} \<longrightarrow>
      flight_crew_tbl (snd (handle e req s)) = flight_crew_tbl s)"
proof (intro conjI impI)
  assume "req \<in> {DeleteAirline rid, DeleteAirport rid, DeleteAircraft rid,
                 DeletePassenger rid, DeleteBooking rid}"
  then show "flight_crew_tbl (snd (handle e req s)) = flight_crew_tbl s"
    by (auto simp: airlines_delete_def airports_delete_def aircraft_delete_def
        passengers_delete_def bookings_delete_def Let_def)
qed (simp_all add: crew_members_delete_def flights_delete_def airlines_delete_def
       airports_delete_def aircraft_delete_def passengers_delete_def dependents_defs
       Let_def delete_where_def filter_not_none)

theorem flight_and_crew_member_deletes_cascade_the_others_block_witness:
  "crew_member_by_id (Some ''c1'') sample_db \<noteq> []
   \<and> flights_of_crew_member ''c1'' sample_db \<noteq> []
   \<and> journal (snd (crew_members_delete ''c1'' sample_db)) = [DELETE FlightCrew, DELETE CrewMember]
   \<and> airline_by_id (Some ''a1'') sample_db \<noteq> []
   \<and> aircraft_of_airline ''a1'' sample_db \<noteq> []
   \<and> snd (airlines_delete ''a1'' sample_db) = sample_db"
proof -
  have c1: "crew_member_by_id (Some ''c1'') sample_db \<noteq> []"
    and a1: "airline_by_id (Some ''a1'') sample_db \<noteq> []"
    by (simp_all add: sample_db_def lookup_defs)
  have f1: "flights_of_crew_member ''c1'' sample_db \<noteq> []"
    and d1: "aircraft_of_airline ''a1'' sample_db \<noteq> []"
    by (simp_all add: sample_db_def dependents_defs sql_eq_def)
  have j: "journal sample_db = []"
    by (simp add: sample_db_def)
  have r1: "journal (snd (crew_members_delete ''c1'' sample_db))
              = [DELETE FlightCrew, DELETE CrewMember]"
    using flight_and_crew_member_deletes_cascade_the_others_block
            [where rid = "''c1''" and s = sample_db, THEN conjunct1, THEN mp, OF c1]
          f1 j
    by simp
  have a1': "airline_by_id (Some ''a1'') sample_db \<noteq> []
       \<and> (aircraft_of_airline ''a1'' sample_db \<noteq> [] \<or> flights_of_airline ''a1'' sample_db \<noteq> []
          \<or> crew_members_of_airline ''a1'' sample_db \<noteq> [])"
    using a1 d1 by simp
  have r2: "snd (airlines_delete ''a1'' sample_db) = sample_db"
    using flight_and_crew_member_deletes_cascade_the_others_block
            [where rid = "''a1''" and s = sample_db,
             THEN conjunct2, THEN conjunct2, THEN conjunct1, THEN mp, OF a1']
    by simp
  from c1 f1 r1 a1 d1 r2 show ?thesis by (intro conjI)
qed

theorem flight_and_crew_member_deletes_cascade_the_others_block_counterexample:
  "crew_member_by_id (Some ''c1'') sample_db \<noteq> []
   \<and> length (flights_of_crew_member ''c1'' sample_db) = 2
   \<and> fst (crew_members_delete ''c1'' sample_db) = reply 200 ''Crew member deleted successfully''
   \<and> flight_crew_tbl (snd (crew_members_delete ''c1'' sample_db))
       = [\<lparr>fc_flight_id = Some ''f4'', fc_crew_member_id = Some ''c2'',
            fc_role = Some ''Lead Flight Attendant''\<rparr>]
   \<and> crew_member_by_id (Some ''c1'') (snd (crew_members_delete ''c1'' sample_db)) = []
   \<and> journal (snd (crew_members_delete ''c1'' sample_db))
       = [DELETE FlightCrew, DELETE CrewMember]"
  by (simp add: crew_members_delete_def flights_of_crew_member_def delete_where_def
      sample_db_def lookup_defs Let_def)

section \<open>C9: the default status of a flight\<close>

text \<open>
  C9, as amended. A flight create that passes the checks and whose \<open>status\<close> is unset
  (or otherwise falsy) persists the flight with status \<open>Scheduled\<close>: the INSERT carries
  that status, and the row it inserts has it. (When the database refuses the INSERT,
  because it cannot read one of the times or the new id is taken, the answer is 500 and
  nothing is persisted.)
\<close>

theorem created_flight_status_defaults_to_Scheduled:
  assumes "flight_checks e b s = None" and "\<not> truthy (b ''status'')"
  shows "(store_reads_times e b \<and> flight_by_id (Some (uuidv4 e)) s = [] \<longrightarrow>
           res_status (fst (flights_post e b s)) = 201
           \<and> (\<exists>row. flight_tbl (snd (flights_post e b s)) = flight_tbl s @ [row]
                  \<and> res_data (fst (flights_post e b s)) = FlightData row
                  \<and> fl_id row = Some (uuidv4 e)
                  \<and> fl_status row = Some ''Scheduled''))
       \<and> (\<not> (store_reads_times e b \<and> flight_by_id (Some (uuidv4 e)) s = []) \<longrightarrow>
           flights_post e b s = (server_error, s))"
proof (intro conjI impI)
  assume a: "store_reads_times e b \<and> flight_by_id (Some (uuidv4 e)) s = []"
  from flights_post_accepted [OF assms(1)] a obtain row where
    eq: "flights_post e b s =
           (reply_data 201 ''Flight created successfully'' (FlightData row),
            s\<lparr>flight_tbl := flight_tbl s @ [row], journal := journal s @ [INSERT Flight]\<rparr>)"
    and row: "fl_id row = Some (uuidv4 e)"
      "fl_status row = prepareValue (or_default (b ''status'') ''Scheduled'')"
    by blast
  from eq show "res_status (fst (flights_post e b s)) = 201"
    by simp
  from eq row assms(2)
  show "\<exists>row. flight_tbl (snd (flights_post e b s)) = flight_tbl s @ [row]
          \<and> res_data (fst (flights_post e b s)) = FlightData row
          \<and> fl_id row = Some (uuidv4 e)
          \<and> fl_status row = Some ''Scheduled''"
    by (simp add: or_default_def)
next
  assume "\<not> (store_reads_times e b \<and> flight_by_id (Some (uuidv4 e)) s = [])"
  then show "flights_post e b s = (server_error, s)"
    by (rule flights_post_refused [OF assms(1)])
qed

theorem created_flight_status_defaults_to_Scheduled_witness:
  "flight_checks sample_env sample_flight sample_db = None
   \<and> sample_flight ''status'' = JUndefined
   \<and> store_reads_times sample_env sample_flight
   \<and> flight_by_id (Some (uuidv4 sample_env)) sample_db = []
   \<and> res_status (fst (flights_post sample_env sample_flight sample_db)) = 201
   \<and> fl_status (last (flight_tbl (snd (flights_post sample_env sample_flight sample_db))))
       = Some ''Scheduled''"
proof -
  have u: "sample_flight ''status'' = JUndefined"
    by (simp add: sample_flight_def obj_def)
  then have f: "\<not> truthy (sample_flight ''status'')"
    by simp
  from created_flight_status_defaults_to_Scheduled
         [OF sample_flight_passes f, THEN conjunct1, THEN mp, OF conjI,
          OF sample_store_reads sample_uuid_fresh]
  have "res_status (fst (flights_post sample_env sample_flight sample_db)) = 201"
    and "fl_status (last (flight_tbl (snd (flights_post sample_env sample_flight sample_db))))
       = Some ''Scheduled''"
    by auto
  with sample_flight_passes u sample_store_reads sample_uuid_fresh show ?thesis
    by (intro conjI)
qed

theorem created_flight_status_defaults_to_Scheduled_counterexample:
  "flight_checks sample_env sample_flight sample_db = None
   \<and> sample_flight ''status'' = JUndefined
   \<and> res_status (fst (flights_put sample_env ''f4'' sample_flight sample_db)) = 200
   \<and> map fl_status (flight_by_id (Some ''f4'')
         (snd (flights_put sample_env ''f4'' sample_flight sample_db))) = [None]"
proof -
  have u: "sample_flight ''status'' = JUndefined"
    by (simp add: sample_flight_def obj_def)
  from flights_put_accepted [OF sample_f4_exists sample_flight_passes sample_store_reads]
  obtain w where
    eq: "flights_put sample_env ''f4'' sample_flight sample_db =
           (reply_data 200 ''Flight updated successfully''
              (first_row FlightData (map (flight_set w) (flight_by_id (Some ''f4'') sample_db))),
            sample_db\<lparr>flight_tbl :=
                        update_where (\<lambda>r. sql_eq (fl_id r) (Some ''f4'')) (flight_set w)
                          (flight_tbl sample_db),
                      journal := journal sample_db @ [UPDATE Flight]\<rparr>)"
    and sel: "flight_by_id (Some ''f4'') (snd (flights_put sample_env ''f4'' sample_flight sample_db))
                = map (flight_set w) (flight_by_id (Some ''f4'') sample_db)"
    and st: "fl_status w = prepareValue (sample_flight ''status'')"
    by blast
  from eq have r: "res_status (fst (flights_put sample_env ''f4'' sample_flight sample_db)) = 200"
    by simp
  have one: "length (flight_by_id (Some ''f4'') sample_db) = 1"
    by (simp add: sample_db_def flight_by_id_def sql_eq_def)
  have "map fl_status (map (flight_set w) (flight_by_id (Some ''f4'') sample_db)) = [None]"
    using one st u
    by (cases "flight_by_id (Some ''f4'') sample_db") (simp_all add: flight_set_def)
  with sel have "map fl_status (flight_by_id (Some ''f4'')
         (snd (flights_put sample_env ''f4'' sample_flight sample_db))) = [None]"
    by simp
  with sample_flight_passes u r show ?thesis by (intro conjI)
qed

section \<open>C10: times that do not parse\<close>

lemma flight_checks_None_rest:
  assumes "\<not> date_ge (new_Date (date_parse e) (b ''departure_time''))
               (new_Date (date_parse e) (b ''arrival_time''))"
    and "\<forall>c \<in> set flight_check_order - {InvalidTimeOrder}. \<not> flight_check_fails e b s c"
  shows "flight_checks e b s = None"
proof -
  from assms(2) have
    "\<not> flight_check_fails e b s MissingField" "\<not> flight_check_fails e b s SameAirport"
    "\<not> flight_check_fails e b s UnknownAirport" "\<not> flight_check_fails e b s UnknownAircraft"
    "\<not> flight_check_fails e b s UnknownAirline"
    "\<not> flight_check_fails e b s AircraftAirlineMismatch"
    by (simp_all add: flight_check_order_def del: flight_check_fails.simps)
  with assms(1) show ?thesis
    by (simp add: flight_checks_def Let_def case_list_hd)
qed

text \<open>
  C10. When the departure time or the arrival time does not parse to an instant, the guard
  of the time order is false, so no flight write is rejected for the order of its times;
  and a candidate that fails none of the other six checks has its statement sent. The
  create is then answered 201, and the update of an existing flight 200, with the flight
  persisted under the times as the database reads them, whenever the database can read
  both times (and, for the create, the new id is free); otherwise the answer is 500 and
  nothing is written.
\<close>

theorem unparseable_time_passes_the_time_order_check:
  assumes "new_Date (date_parse e) (b ''departure_time'') = None
           \<or> new_Date (date_parse e) (b ''arrival_time'') = None"
  shows "\<not> date_ge (new_Date (date_parse e) (b ''departure_time''))
               (new_Date (date_parse e) (b ''arrival_time''))
       \<and> (\<forall>r. flight_checks e b s = Some r \<longrightarrow>
              res_message r \<noteq> ''Departure time must be before arrival time'')
       \<and> ((\<forall>c \<in> set flight_check_order - {InvalidTimeOrder}. \<not> flight_check_fails e b s c) \<longrightarrow>
            (store_reads_times e b \<and> flight_by_id (Some (uuidv4 e)) s = [] \<longrightarrow>
               res_status (fst (flights_post e b s)) = 201
               \<and> (\<exists>row. flight_tbl (snd (flights_post e b s)) = flight_tbl s @ [row]
                     \<and> typed (timestamp_in e) (prepareValue (b ''departure_time''))
                         = Some (fl_departure_time row)
                     \<and> typed (timestamp_in e) (prepareValue (b ''arrival_time''))
                         = Some (fl_arrival_time row)))
            \<and> (\<not> (store_reads_times e b \<and> flight_by_id (Some (uuidv4 e)) s = []) \<longrightarrow>
               flights_post e b s = (server_error, s))
            \<and> (flight_by_id (Some rid) s \<noteq> [] \<and> store_reads_times e b \<longrightarrow>
                 res_status (fst (flights_put e rid b s)) = 200
                 \<and> flight_by_id (Some rid) (snd (flights_put e rid b s)) \<noteq> []
                 \<and> (\<forall>row \<in> set (flight_by_id (Some rid) (snd (flights_put e rid b s))).
                       typed (timestamp_in e) (prepareValue (b ''departure_time''))
                         = Some (fl_departure_time row)
                       \<and> typed (timestamp_in e) (prepareValue (b ''arrival_time''))
                         = Some (fl_arrival_time row)))
            \<and> (flight_by_id (Some rid) s \<noteq> [] \<and> \<not> store_reads_times e b \<longrightarrow>
                 flights_put e rid b s = (server_error, s)))"
proof (intro conjI allI impI)
  from assms show nge: "\<not> date_ge (new_Date (date_parse e) (b ''departure_time''))
               (new_Date (date_parse e) (b ''arrival_time''))"
    by (auto simp: date_ge_def split: option.splits)
  {
    fix r assume "flight_checks e b s = Some r"
    with nge show "res_message r \<noteq> ''Departure time must be before arrival time''"
      by (auto simp: flight_checks_def Let_def split: if_splits)
  }
  assume rest: "\<forall>c \<in> set flight_check_order - {InvalidTimeOrder}. \<not> flight_check_fails e b s c"
  note ok = flight_checks_None_rest [OF nge rest]
  {
    assume a: "store_reads_times e b \<and> flight_by_id (Some (uuidv4 e)) s = []"
    from flights_post_accepted [OF ok] a obtain row where
      eq: "flights_post e b s =
           (reply_data 201 ''Flight created successfully'' (FlightData row),
            s\<lparr>flight_tbl := flight_tbl s @ [row], journal := journal s @ [INSERT Flight]\<rparr>)"
      and row: "typed (timestamp_in e) (prepareValue (b ''departure_time''))
                  = Some (fl_departure_time row)"
        "typed (timestamp_in e) (prepareValue (b ''arrival_time'')) = Some (fl_arrival_time row)"
      by blast
    from eq show "res_status (fst (flights_post e b s)) = 201"
      by simp
    from eq row
    show "\<exists>row. flight_tbl (snd (flights_post e b s)) = flight_tbl s @ [row]
            \<and> typed (timestamp_in e) (prepareValue (b ''departure_time''))
                = Some (fl_departure_time row)
            \<and> typed (timestamp_in e) (prepareValue (b ''arrival_time''))
                = Some (fl_arrival_time row)"
      by simp
  }
  {
    assume "\<not> (store_reads_times e b \<and> flight_by_id (Some (uuidv4 e)) s = [])"
    then show "flights_post e b s = (server_error, s)"
      by (rule flights_post_refused [OF ok])
  }
  {
    assume a: "flight_by_id (Some rid) s \<noteq> [] \<and> store_reads_times e b"
    then have ex: "flight_by_id (Some rid) s \<noteq> []" and rd: "store_reads_times e b"
      by simp_all
    from flights_put_accepted [OF ex ok rd] obtain w where
      eq: "flights_put e rid b s =
           (reply_data 200 ''Flight updated successfully''
              (first_row FlightData (map (flight_set w) (flight_by_id (Some rid) s))),
            s\<lparr>flight_tbl := update_where (\<lambda>r. sql_eq (fl_id r) (Some rid)) (flight_set w)
                              (flight_tbl s),
              journal := journal s @ [UPDATE Flight]\<rparr>)"
      and sel: "flight_by_id (Some rid) (snd (flights_put e rid b s))
                  = map (flight_set w) (flight_by_id (Some rid) s)"
      and w: "typed (timestamp_in e) (prepareValue (b ''departure_time''))
                = Some (fl_departure_time w)"
        "typed (timestamp_in e) (prepareValue (b ''arrival_time'')) = Some (fl_arrival_time w)"
      by blast
    from eq show "res_status (fst (flights_put e rid b s)) = 200"
      by simp
    from sel ex show "flight_by_id (Some rid) (snd (flights_put e rid b s)) \<noteq> []"
      by simp
    from w show "\<forall>row \<in> set (flight_by_id (Some rid) (snd (flights_put e rid b s))).
          typed (timestamp_in e) (prepareValue (b ''departure_time''))
            = Some (fl_departure_time row)
          \<and> typed (timestamp_in e) (prepareValue (b ''arrival_time''))
            = Some (fl_arrival_time row)"
      by (auto simp: sel flight_set_def)
  }
  {
    assume a: "flight_by_id (Some rid) s \<noteq> [] \<and> \<not> store_reads_times e b"
    then show "flights_put e rid b s = (server_error, s)"
      by (intro flights_put_refused [OF _ ok]) simp_all
  }
qed

theorem unparseable_time_passes_the_time_order_check_witness:
  "new_Date (date_parse sample_env) (JStr ''epoch'') = None
   \<and> store_reads_times sample_env (sample_flight(''arrival_time'' := JStr ''epoch''))
   \<and> res_status (fst (flights_post sample_env
        (sample_flight(''arrival_time'' := JStr ''epoch'')) sample_db)) = 201
   \<and> fl_departure_time (last (flight_tbl (snd (flights_post sample_env
        (sample_flight(''arrival_time'' := JStr ''epoch'')) sample_db))))
       = Some ''2023-06-05 10:00:00''
   \<and> fl_arrival_time (last (flight_tbl (snd (flights_post sample_env
        (sample_flight(''arrival_time'' := JStr ''epoch'')) sample_db))))
       = Some ''1970-01-01 00:00:00''
   \<and> res_status (fst (flights_put sample_env ''f4''
        (sample_flight(''arrival_time'' := JStr ''epoch'')) sample_db)) = 200
   \<and> new_Date (date_parse sample_env) (JStr ''not a date'') = None
   \<and> \<not> store_reads_times sample_env (sample_flight(''departure_time'' := JStr ''not a date''))
   \<and> flights_post sample_env (sample_flight(''departure_time'' := JStr ''not a date'')) sample_db
       = (server_error, sample_db)"
proof -
  let ?b = "sample_flight(''arrival_time'' := JStr ''epoch'')"
  let ?n = "sample_flight(''departure_time'' := JStr ''not a date'')"
  have n: "new_Date (date_parse sample_env) (JStr ''epoch'') = None"
    and n': "new_Date (date_parse sample_env) (JStr ''not a date'') = None"
    by (simp_all add: sample_env_def sample_parse_def)
  from n have h: "new_Date (date_parse sample_env) (?b ''departure_time'') = None
           \<or> new_Date (date_parse sample_env) (?b ''arrival_time'') = None"
    by simp
  from n' have h': "new_Date (date_parse sample_env) (?n ''departure_time'') = None
           \<or> new_Date (date_parse sample_env) (?n ''arrival_time'') = None"
    by simp
  have rd: "store_reads_times sample_env ?b"
    and dep: "typed (timestamp_in sample_env) (prepareValue (?b ''departure_time''))
               = Some (Some ''2023-06-05 10:00:00'')"
    and arr: "typed (timestamp_in sample_env) (prepareValue (?b ''arrival_time''))
               = Some (Some ''1970-01-01 00:00:00'')"
    by (simp_all add: store_reads_times_def typed_def sample_defs)
  have nrd: "\<not> store_reads_times sample_env ?n"
    by (simp add: store_reads_times_def typed_def sample_defs)
  have "\<not> flight_check_fails sample_env ?b sample_db MissingField"
    "\<not> flight_check_fails sample_env ?b sample_db SameAirport"
    "\<not> flight_check_fails sample_env ?b sample_db UnknownAirport"
    "\<not> flight_check_fails sample_env ?b sample_db UnknownAircraft"
    "\<not> flight_check_fails sample_env ?b sample_db UnknownAirline"
    "\<not> flight_check_fails sample_env ?b sample_db AircraftAirlineMismatch"
    by (simp_all add: sample_defs lookup_defs)
  then have rest: "\<forall>c \<in> set flight_check_order - {InvalidTimeOrder}.
                \<not> flight_check_fails sample_env ?b sample_db c"
    by (auto simp add: flight_check_order_def simp del: flight_check_fails.simps)
  have "\<not> flight_check_fails sample_env ?n sample_db MissingField"
    "\<not> flight_check_fails sample_env ?n sample_db SameAirport"
    "\<not> flight_check_fails sample_env ?n sample_db UnknownAirport"
    "\<not> flight_check_fails sample_env ?n sample_db UnknownAircraft"
    "\<not> flight_check_fails sample_env ?n sample_db UnknownAirline"
    "\<not> flight_check_fails sample_env ?n sample_db AircraftAirlineMismatch"
    by (simp_all add: sample_defs lookup_defs)
  then have rest': "\<forall>c \<in> set flight_check_order - {InvalidTimeOrder}.
                \<not> flight_check_fails sample_env ?n sample_db c"
    by (auto simp add: flight_check_order_def simp del: flight_check_fails.simps)
  note T = unparseable_time_passes_the_time_order_check
             [where e = sample_env and b = ?b and s = sample_db and rid = "''f4''", OF h,
              THEN conjunct2, THEN conjunct2, THEN mp, OF rest]
  note T' = unparseable_time_passes_the_time_order_check
             [where e = sample_env and b = ?n and s = sample_db, OF h',
              THEN conjunct2, THEN conjunct2, THEN mp, OF rest']
  from T rd sample_uuid_fresh
  have r1: "res_status (fst (flights_post sample_env ?b sample_db)) = 201"
    and ex: "\<exists>row. flight_tbl (snd (flights_post sample_env ?b sample_db))
                     = flight_tbl sample_db @ [row]
               \<and> typed (timestamp_in sample_env) (prepareValue (?b ''departure_time''))
                   = Some (fl_departure_time row)
               \<and> typed (timestamp_in sample_env) (prepareValue (?b ''arrival_time''))
                   = Some (fl_arrival_time row)"
    by blast+
  from ex dep arr
  have r2: "fl_departure_time (last (flight_tbl (snd (flights_post sample_env ?b sample_db))))
       = Some ''2023-06-05 10:00:00''"
    and r3: "fl_arrival_time (last (flight_tbl (snd (flights_post sample_env ?b sample_db))))
       = Some ''1970-01-01 00:00:00''"
    by auto
  from T rd sample_f4_exists
  have r4: "res_status (fst (flights_put sample_env ''f4'' ?b sample_db)) = 200"
    by blast
  from T' nrd
  have r5: "flights_post sample_env ?n sample_db = (server_error, sample_db)"
    by blast
  from n rd r1 r2 r3 r4 n' nrd r5 show ?thesis by (intro conjI)
qed

end
